theory Spec2Isabelle
  imports Complex_Main "HOL-Library.AList" "HOL-Library.Sublist"
begin

section \<open>Data model: exceptions, cells and data frames\<close>

text \<open>
  The Python exceptions that the modelled code can raise. A function that may raise
  returns \<open>error + 'a\<close>, with \<open>Inl\<close> carrying the exception.
\<close>

datatype error =
    NameError string
  | KeyError string
  | ValueError string
  | TypeError string

text \<open>
  A pandas cell. Floats are modelled by exact reals; \<open>NaN\<close> is the missing value that
  pandas stores where a column was never assigned. Timestamps are nanoseconds since the
  epoch, as in \<open>datetime64[ns]\<close>.
\<close>

datatype cell =
    NaN
  | IntV int
  | FloatV real
  | StrV string
  | BoolV bool
  | DateV int

text \<open>
  A \<open>DataFrame\<close> with the default \<open>RangeIndex\<close>: its columns in insertion order.
\<close>

type_synonym dataframe = "(string \<times> cell list) list"

definition nrows :: "dataframe \<Rightarrow> nat" where
  "nrows df = (case df of [] \<Rightarrow> 0 | (k, c) # rest \<Rightarrow> length c)"

text \<open>\<open>df[col]\<close>: a missing column raises \<open>KeyError\<close>.\<close>

definition df_get :: "dataframe \<Rightarrow> string \<Rightarrow> error + cell list" where
  "df_get df col = (case map_of df col of None \<Rightarrow> Inl (KeyError col) | Some c \<Rightarrow> Inr c)"

text \<open>
  \<open>Series.sum()\<close> with the default \<open>skipna=True\<close>: missing values are skipped,
  booleans count as 0 and 1, and a column holding strings or timestamps cannot be
  multiplied by a float afterwards, which is the \<open>TypeError\<close> here.
\<close>

fun col_sum :: "cell list \<Rightarrow> error + real" where
  "col_sum [] = Inr 0"
| "col_sum (c # cs) =
     (case col_sum cs of
        Inl e \<Rightarrow> Inl e
      | Inr s \<Rightarrow>
          (case c of
             NaN \<Rightarrow> Inr s
           | IntV i \<Rightarrow> Inr (real_of_int i + s)
           | FloatV x \<Rightarrow> Inr (x + s)
           | BoolV b \<Rightarrow> Inr ((if b then 1 else 0) + s)
           | StrV t \<Rightarrow> Inl (TypeError ''unsupported operand type(s)'')
           | DateV t \<Rightarrow> Inl (TypeError ''unsupported operand type(s)'')))"

text \<open>
  The cells that such a sum accepts, and what each adds to it: a number adds itself,
  \<open>True\<close> adds 1, and a missing value and \<open>False\<close> add nothing.
\<close>

definition numeric :: "cell \<Rightarrow> bool" where
  "numeric c = (case c of StrV t \<Rightarrow> False | DateV t \<Rightarrow> False | _ \<Rightarrow> True)"

definition number :: "cell \<Rightarrow> real" where
  "number c =
     (case c of
        IntV i \<Rightarrow> real_of_int i
      | FloatV x \<Rightarrow> x
      | BoolV b \<Rightarrow> (if b then 1 else 0)
      | _ \<Rightarrow> 0)"

text \<open>
  \<open>pd.DataFrame(dict)\<close>: the arrays must have one length. \<open>df[col] = values\<close>
  replaces the column where it stands or appends a new one, and the values must be as
  long as the index.
\<close>

definition DataFrame :: "(string \<times> cell list) list \<Rightarrow> error + dataframe" where
  "DataFrame cols =
     (if list_all (\<lambda>c. length (snd c) = nrows cols) cols then Inr cols
      else Inl (ValueError ''All arrays must be of the same length''))"

definition df_set :: "dataframe \<Rightarrow> string \<Rightarrow> cell list \<Rightarrow> error + dataframe" where
  "df_set df col v =
     (if length v = nrows df then Inr (AList.update col v df)
      else Inl (ValueError ''Length of values does not match length of index''))"

section \<open>The library: \<open>numpy.random\<close>\<close>

text \<open>
  \<open>numpy.random\<close> keeps one global generator state, of type \<open>'g\<close> here. The samplers
  are not part of the repository: they are parameters of the model, each a function from
  the state to one sample and the next state. \<open>seed_state s\<close> is the state that
  \<open>np.random.seed(s)\<close> installs. \<open>choice_index k p\<close> draws a position in a population
  of \<open>k\<close> elements, with the probabilities \<open>p\<close> when they are given.
\<close>

record 'g np_random =
  seed_state :: "nat \<Rightarrow> 'g"
  choice_index :: "nat \<Rightarrow> real list option \<Rightarrow> 'g \<Rightarrow> nat \<times> 'g"
  draw_lognormal :: "real \<Rightarrow> real \<Rightarrow> 'g \<Rightarrow> real \<times> 'g"
  draw_exponential :: "real \<Rightarrow> 'g \<Rightarrow> real \<times> 'g"
  draw_normal :: "real \<Rightarrow> real \<Rightarrow> 'g \<Rightarrow> real \<times> 'g"
  draw_uniform :: "real \<Rightarrow> real \<Rightarrow> 'g \<Rightarrow> real \<times> 'g"
  draw_beta :: "real \<Rightarrow> real \<Rightarrow> 'g \<Rightarrow> real \<times> 'g"
  draw_poisson :: "real \<Rightarrow> 'g \<Rightarrow> int \<times> 'g"
  draw_randint :: "int \<Rightarrow> int \<Rightarrow> 'g \<Rightarrow> int \<times> 'g"

text \<open>
  Code that samples may raise and always leaves a generator state behind: it has the type
  \<open>'g \<Rightarrow> (error + 'a) \<times> 'g\<close>. \<open>rbind\<close> sequences two such steps and stops at the
  first exception; \<open>ret\<close> returns a value and \<open>lift\<close> runs a step that does not sample.
\<close>

definition rbind ::
  "('g \<Rightarrow> (error + 'a) \<times> 'g) \<Rightarrow> ('a \<Rightarrow> 'g \<Rightarrow> (error + 'b) \<times> 'g) \<Rightarrow> 'g \<Rightarrow> (error + 'b) \<times> 'g" where
  "rbind m f g = (case m g of (Inl e, g') \<Rightarrow> (Inl e, g') | (Inr x, g') \<Rightarrow> f x g')"

definition ret :: "'a \<Rightarrow> 'g \<Rightarrow> (error + 'a) \<times> 'g" where
  "ret x g = (Inr x, g)"

definition lift :: "error + 'a \<Rightarrow> 'g \<Rightarrow> (error + 'a) \<times> 'g" where
  "lift r g = (r, g)"

text \<open>
  \<open>post m g Q\<close>: the step \<open>m\<close>, run from the state \<open>g\<close>, returns normally and its
  value satisfies \<open>Q\<close>.
\<close>

definition post :: "('g \<Rightarrow> (error + 'a) \<times> 'g) \<Rightarrow> 'g \<Rightarrow> ('a \<Rightarrow> bool) \<Rightarrow> bool" where
  "post m g Q = (case fst (m g) of Inl e \<Rightarrow> False | Inr x \<Rightarrow> Q x)"

text \<open>
  \<open>ppost m g Q\<close>: if the step \<open>m\<close>, run from the state \<open>g\<close>, returns normally, then its
  value satisfies \<open>Q\<close>.
\<close>

definition ppost :: "('g \<Rightarrow> (error + 'a) \<times> 'g) \<Rightarrow> 'g \<Rightarrow> ('a \<Rightarrow> bool) \<Rightarrow> bool" where
  "ppost m g Q = (case fst (m g) of Inl e \<Rightarrow> True | Inr x \<Rightarrow> Q x)"

text \<open>\<open>np.random.seed(s)\<close> replaces the global state, whatever it was.\<close>

definition np_seed :: "'g np_random \<Rightarrow> nat \<Rightarrow> 'g \<Rightarrow> (error + unit) \<times> 'g" where
  "np_seed np s g = (Inr (), seed_state np s)"

text \<open>An array of \<open>n\<close> samples is filled with \<open>n\<close> successive draws.\<close>

fun draws :: "('g \<Rightarrow> 'a \<times> 'g) \<Rightarrow> nat \<Rightarrow> 'g \<Rightarrow> 'a list \<times> 'g" where
  "draws f 0 g = ([], g)"
| "draws f (Suc n) g =
     (case f g of (x, g') \<Rightarrow> (case draws f n g' of (xs, g'') \<Rightarrow> (x # xs, g'')))"

text \<open>A sampler called with a \<open>size\<close>: a negative size raises.\<close>

definition sized :: "('g \<Rightarrow> 'a \<times> 'g) \<Rightarrow> int \<Rightarrow> 'g \<Rightarrow> (error + 'a list) \<times> 'g" where
  "sized f sz g =
     (if sz < 0 then (Inl (ValueError ''negative dimensions are not allowed''), g)
      else (case draws f (nat sz) g of (xs, g') \<Rightarrow> (Inr xs, g')))"

text \<open>
  The checks of \<open>np.random.choice\<close> on the probabilities \<open>p\<close>, in numpy's order: one
  entry per element, no negative entry, and a sum within \<open>sqrt eps = 2^-26\<close> of 1.
\<close>

definition choice_check :: "nat \<Rightarrow> real list option \<Rightarrow> error option" where
  "choice_check pop_size p =
     (case p of
        None \<Rightarrow> None
      | Some ps \<Rightarrow>
          if length ps \<noteq> pop_size then Some (ValueError ''a and p must have same size'')
          else if list_ex (\<lambda>x. x < 0) ps
            then Some (ValueError ''probabilities are not non-negative'')
          else if \<bar>sum_list ps - 1\<bar> > 1 / 2 ^ 26
            then Some (ValueError ''probabilities do not sum to 1'')
          else None)"

text \<open>\<open>np.random.choice(a, size, p=p)\<close> and \<open>np.random.choice(a, p=p)\<close>.\<close>

definition np_choice ::
  "'g np_random \<Rightarrow> 'a list \<Rightarrow> int \<Rightarrow> real list option \<Rightarrow> 'g \<Rightarrow> (error + 'a list) \<times> 'g" where
  "np_choice np a sz p g =
     (if a = [] \<and> sz \<noteq> 0
        then (Inl (ValueError ''a cannot be empty unless no samples are taken''), g)
      else (case choice_check (length a) p of
              Some e \<Rightarrow> (Inl e, g)
            | None \<Rightarrow>
                (case sized (choice_index np (length a) p) sz g of
                   (Inl e, g') \<Rightarrow> (Inl e, g')
                 | (Inr idx, g') \<Rightarrow> (Inr (map (\<lambda>i. a ! i) idx), g'))))"

definition np_choice1 ::
  "'g np_random \<Rightarrow> 'a list \<Rightarrow> real list option \<Rightarrow> 'g \<Rightarrow> (error + 'a) \<times> 'g" where
  "np_choice1 np a p g =
     (if a = [] then (Inl (ValueError ''a cannot be empty unless no samples are taken''), g)
      else (case choice_check (length a) p of
              Some e \<Rightarrow> (Inl e, g)
            | None \<Rightarrow> (case choice_index np (length a) p g of (i, g') \<Rightarrow> (Inr (a ! i), g'))))"

text \<open>\<open>Series.clip(lo, hi)\<close> on one value.\<close>

definition clip :: "real \<Rightarrow> real \<Rightarrow> real \<Rightarrow> real" where
  "clip lo hi x = min (max x lo) hi"

text \<open>
  What the documentation of numpy promises about the samples and the claims below rely on:
  a chosen position lies inside the population, and a log-normal sample is positive.
\<close>

definition sampler_ok :: "'g np_random \<Rightarrow> bool" where
  "sampler_ok np \<longleftrightarrow>
     (\<forall>k p g. 0 < k \<longrightarrow> fst (choice_index np k p g) < k)
   \<and> (\<forall>mu sigma g. 0 < fst (draw_lognormal np mu sigma g))"

text \<open>
  A small deterministic sampler on which the model can be run: the state is a counter of
  the draws made so far.
\<close>

definition counter_random :: "nat np_random" where
  "counter_random =
     \<lparr>seed_state = (\<lambda>s. s),
      choice_index = (\<lambda>k p g. (g mod k, Suc g)),
      draw_lognormal = (\<lambda>mu sigma g. (1 + real (g mod 3), Suc g)),
      draw_exponential = (\<lambda>scale g. (real (g mod 5), Suc g)),
      draw_normal = (\<lambda>loc scale g. (loc + real (g mod 2), Suc g)),
      draw_uniform = (\<lambda>lo hi g. (lo, Suc g)),
      draw_beta = (\<lambda>a b g. (1 / 2, Suc g)),
      draw_poisson = (\<lambda>lam g. (int (g mod 2), Suc g)),
      draw_randint = (\<lambda>lo hi g. (lo, Suc g))\<rparr>"

text \<open>A list comprehension whose body may raise stops at the first exception.\<close>

fun map_err :: "('a \<Rightarrow> error + 'b) \<Rightarrow> 'a list \<Rightarrow> error + 'b list" where
  "map_err f [] = Inr []"
| "map_err f (x # xs) =
     (case f x of
        Inl e \<Rightarrow> Inl e
      | Inr y \<Rightarrow> (case map_err f xs of Inl e \<Rightarrow> Inl e | Inr ys \<Rightarrow> Inr (y # ys)))"

section \<open>The main engine: \<open>LegalOperationsPlatform\<close>\<close>

subsection \<open>\<open>generate_legal_data\<close>\<close>

definition case_outcomes :: "string list" where
  "case_outcomes = [''Won'', ''Lost'', ''Settled'', ''Dismissed'', ''Ongoing'']"

definition complexity_levels :: "string list" where
  "complexity_levels = [''Low'', ''Medium'', ''High'', ''Very High'']"

text \<open>A dictionary literal indexed by a key: a missing key raises \<open>KeyError\<close>.\<close>

definition dict_get :: "(string \<times> 'v) list \<Rightarrow> string \<Rightarrow> error + 'v" where
  "dict_get d k = (case map_of d k of None \<Rightarrow> Inl (KeyError k) | Some v \<Rightarrow> Inr v)"

text \<open>
  The body of the first loop, for one row: the probabilities of
  Won, Lost, Settled, Dismissed and Ongoing. The division is the exact one; numpy's
  float division by zero (which gives \<open>inf\<close> or \<open>nan\<close> and does not raise) has no
  counterpart here.
\<close>

definition outcome_probs_row :: "string \<Rightarrow> real \<Rightarrow> real \<Rightarrow> error + real list" where
  "outcome_probs_row complexity hours_estimated hours_actual =
     (case dict_get [(''Low'', 0.8), (''Medium'', 0.6), (''High'', 0.4), (''Very High'', 0.2)]
             complexity of
        Inl e \<Rightarrow> Inl e
      | Inr complexity_factor \<Rightarrow>
          (let efficiency_factor = min 1.0 (hours_estimated / hours_actual);
               win_prob = complexity_factor * efficiency_factor * 0.7;
               settle_prob = 0.3;
               loss_prob = 1 - win_prob - settle_prob
           in Inr [win_prob, loss_prob, settle_prob, 0.05, 0.05]))"

fun outcome_probs_loop :: "(string \<times> real \<times> real) list \<Rightarrow> error + real list list" where
  "outcome_probs_loop [] = Inr []"
| "outcome_probs_loop ((complexity, hours_estimated, hours_actual) # rows) =
     (case outcome_probs_row complexity hours_estimated hours_actual of
        Inl e \<Rightarrow> Inl e
      | Inr probs \<Rightarrow>
          (case outcome_probs_loop rows of
             Inl e \<Rightarrow> Inl e
           | Inr outcome_probs \<Rightarrow> Inr (probs # outcome_probs)))"

text \<open>\<open>probs / probs.sum()\<close>.\<close>

definition normalize_probs :: "real list \<Rightarrow> real list" where
  "normalize_probs probs = map (\<lambda>p. p / sum_list probs) probs"

text \<open>The second loop: one outcome is drawn for each row, with the row's probabilities.\<close>

fun outcomes_loop ::
  "'g np_random \<Rightarrow> real list list \<Rightarrow> 'g \<Rightarrow> (error + string list) \<times> 'g" where
  "outcomes_loop np [] g = (Inr [], g)"
| "outcomes_loop np (probs # rest) g =
     (case np_choice1 np case_outcomes (Some (normalize_probs probs)) g of
        (Inl e, g') \<Rightarrow> (Inl e, g')
      | (Inr outcome, g') \<Rightarrow>
          (case outcomes_loop np rest g' of
             (Inl e, g'') \<Rightarrow> (Inl e, g'')
           | (Inr outcomes, g'') \<Rightarrow> (Inr (outcome # outcomes), g'')))"

text \<open>
  \<open>generate_legal_data(n_cases)\<close>. The first statement reseeds the global generator.
  A column that the source reads back from \<open>data\<close> is the list that was stored there.
\<close>

definition generate_legal_data ::
  "'g np_random \<Rightarrow> int \<Rightarrow> 'g \<Rightarrow> (error + dataframe) \<times> 'g" where
  "generate_legal_data np n_cases =
    (rbind (np_seed np 42) (\<lambda>u.
     rbind (np_choice np [''Corporate'', ''Litigation'', ''IP'', ''Employment'', ''Real Estate'',
                          ''Tax'', ''Regulatory''] n_cases None) (\<lambda>practice_area.
     rbind (np_choice np [''Contract'', ''Brief'', ''Motion'', ''Discovery'', ''Compliance'',
                          ''Opinion'', ''Agreement''] n_cases None) (\<lambda>document_type.
     rbind (np_choice np complexity_levels n_cases None) (\<lambda>complexity.
     rbind (np_choice np [''Fortune 500'', ''Mid-Market'', ''Startup'', ''Government'',
                          ''Individual''] n_cases None) (\<lambda>client_type.
     rbind (sized (draw_lognormal np 13 1.5) n_cases) (\<lambda>case_value.
     rbind (sized (draw_lognormal np 5 1) n_cases) (\<lambda>hours_estimated.
     rbind (sized (draw_lognormal np 5.2 1.2) n_cases) (\<lambda>hours_actual.
     rbind (sized (draw_exponential np 20) n_cases) (\<lambda>partner_hours.
     rbind (sized (draw_exponential np 40) n_cases) (\<lambda>associate_hours.
     rbind (sized (draw_exponential np 15) n_cases) (\<lambda>paralegal_hours.
     rbind (sized (draw_lognormal np 6 1) n_cases) (\<lambda>document_pages.
     rbind (sized (draw_lognormal np 3 0.8) n_cases) (\<lambda>review_time_hours.
     rbind (sized (draw_normal np 7.5 1.5) n_cases) (\<lambda>client_satisfaction.
     rbind (sized (draw_normal np 800 150) n_cases) (\<lambda>billing_rate_partner.
     rbind (sized (draw_normal np 400 80) n_cases) (\<lambda>billing_rate_associate.
     rbind (sized (draw_normal np 150 30) n_cases) (\<lambda>billing_rate_paralegal.
     rbind (lift (DataFrame
       [(''case_id'', map IntV [1..n_cases]),
        (''practice_area'', map StrV practice_area),
        (''document_type'', map StrV document_type),
        (''complexity'', map StrV complexity),
        (''client_type'', map StrV client_type),
        (''case_value'', map FloatV case_value),
        (''hours_estimated'', map FloatV hours_estimated),
        (''hours_actual'', map FloatV hours_actual),
        (''partner_hours'', map FloatV partner_hours),
        (''associate_hours'', map FloatV associate_hours),
        (''paralegal_hours'', map FloatV paralegal_hours),
        (''document_pages'', map FloatV document_pages),
        (''review_time_hours'', map FloatV review_time_hours),
        (''client_satisfaction'', map FloatV (map (clip 1 10) client_satisfaction)),
        (''billing_rate_partner'', map FloatV billing_rate_partner),
        (''billing_rate_associate'', map FloatV billing_rate_associate),
        (''billing_rate_paralegal'', map FloatV billing_rate_paralegal)])) (\<lambda>data.
     rbind (lift (outcome_probs_loop (zip complexity (zip hours_estimated hours_actual))))
       (\<lambda>outcome_probs.
     rbind (outcomes_loop np outcome_probs) (\<lambda>outcomes.
     rbind (lift (df_set data ''case_outcome'' (map StrV outcomes))) (\<lambda>data.
     let total_cost =
           map2 (+) (map2 (+) (map2 (*) partner_hours billing_rate_partner)
                              (map2 (*) associate_hours billing_rate_associate))
                    (map2 (*) paralegal_hours billing_rate_paralegal)
     in
     rbind (lift (df_set data ''total_cost'' (map FloatV total_cost))) (\<lambda>data.
     rbind (lift (df_set data ''profit_margin''
              (map FloatV (map2 (\<lambda>cv tc. (cv - tc) / cv * 100) case_value total_cost))))
       (\<lambda>data.
     rbind (lift (df_set data ''efficiency_ratio''
              (map FloatV (map2 (/) hours_estimated hours_actual)))) (\<lambda>data.
     rbind (sized (draw_normal np 50 15) n_cases) (\<lambda>noise.
     rbind (lift (df_set data ''document_complexity_score''
              (map FloatV (map (clip 0 100)
                 (map2 (+) (map2 (+) (map (\<lambda>x. x * 0.3) document_pages)
                                     (map (\<lambda>x. x * 0.4) review_time_hours))
                           noise))))) (\<lambda>data.
     ret data)))))))))))))))))))))))))))"

subsection \<open>\<open>calculate_automation_roi\<close>\<close>

text \<open>
  A method that receives the frame by reference is modelled as a function to the frame
  after the call and the returned value. \<open>calculate_automation_roi\<close> only reads
  \<open>df['review_time_hours']\<close>, so the frame comes back as it was passed.
\<close>

definition calculate_automation_roi ::
  "dataframe \<Rightarrow> dataframe \<times> (error + (string \<times> real) list)" where
  "calculate_automation_roi df =
     (df,
      case df_get df ''review_time_hours'' of
        Inl e \<Rightarrow> Inl e
      | Inr c \<Rightarrow>
          (case col_sum c of
             Inl e \<Rightarrow> Inl e
           | Inr manual_review_hours \<Rightarrow>
               (let manual_cost = manual_review_hours * 200;
                    automated_hours = manual_review_hours * 0.25;
                    automated_cost = automated_hours * 200 + 50000;
                    annual_savings = manual_cost - automated_cost;
                    roi_percentage = (annual_savings / 50000) * 100
                in Inr [(''manual_cost'', manual_cost),
                        (''automated_cost'', automated_cost),
                        (''annual_savings'', annual_savings),
                        (''roi_percentage'', roi_percentage),
                        (''time_savings_hours'', manual_review_hours - automated_hours)])))"

subsection \<open>Column arithmetic\<close>

text \<open>
  The elementwise operators of pandas on two columns of one frame, on exact reals: a
  missing value gives a missing value, a comparison with a missing value is false, and a
  string or a timestamp in an arithmetic operation raises \<open>TypeError\<close>.
\<close>

definition cell_num :: "cell \<Rightarrow> error + real option" where
  "cell_num c =
     (case c of
        NaN \<Rightarrow> Inr None
      | IntV i \<Rightarrow> Inr (Some (real_of_int i))
      | FloatV x \<Rightarrow> Inr (Some x)
      | BoolV b \<Rightarrow> Inr (Some (if b then 1 else 0))
      | StrV t \<Rightarrow> Inl (TypeError ''unsupported operand type(s)'')
      | DateV t \<Rightarrow> Inl (TypeError ''unsupported operand type(s)''))"

definition binop :: "(real \<Rightarrow> real \<Rightarrow> real) \<Rightarrow> cell \<Rightarrow> cell \<Rightarrow> error + cell" where
  "binop f a b =
     (case cell_num a of
        Inl e \<Rightarrow> Inl e
      | Inr x \<Rightarrow>
          (case cell_num b of
             Inl e \<Rightarrow> Inl e
           | Inr y \<Rightarrow>
               (case x of
                  None \<Rightarrow> Inr NaN
                | Some u \<Rightarrow> (case y of None \<Rightarrow> Inr NaN | Some v \<Rightarrow> Inr (FloatV (f u v))))))"

definition series_op ::
  "(real \<Rightarrow> real \<Rightarrow> real) \<Rightarrow> cell list \<Rightarrow> cell list \<Rightarrow> error + cell list" where
  "series_op f xs ys = map_err (\<lambda>p. binop f (fst p) (snd p)) (zip xs ys)"

definition series_scalar ::
  "(real \<Rightarrow> real \<Rightarrow> real) \<Rightarrow> cell list \<Rightarrow> real \<Rightarrow> error + cell list" where
  "series_scalar f xs c = map_err (\<lambda>a. binop f a (FloatV c)) xs"

definition greater :: "cell \<Rightarrow> cell \<Rightarrow> error + cell" where
  "greater a b =
     (case cell_num a of
        Inl e \<Rightarrow> Inl e
      | Inr x \<Rightarrow>
          (case cell_num b of
             Inl e \<Rightarrow> Inl e
           | Inr y \<Rightarrow>
               (case x of
                  None \<Rightarrow> Inr (BoolV False)
                | Some u \<Rightarrow>
                    (case y of None \<Rightarrow> Inr (BoolV False) | Some v \<Rightarrow> Inr (BoolV (v < u))))))"

definition series_gt :: "cell list \<Rightarrow> cell list \<Rightarrow> error + cell list" where
  "series_gt xs ys = map_err (\<lambda>p. greater (fst p) (snd p)) (zip xs ys)"

definition series_gt_scalar :: "cell list \<Rightarrow> cell \<Rightarrow> error + cell list" where
  "series_gt_scalar xs c = map_err (\<lambda>a. greater a c) xs"

text \<open>\<open>.astype(int)\<close> on a boolean column, and \<open>np.abs\<close> on a numeric one.\<close>

definition astype_int :: "cell list \<Rightarrow> cell list" where
  "astype_int xs = map (\<lambda>c. case c of BoolV b \<Rightarrow> IntV (if b then 1 else 0) | _ \<Rightarrow> c) xs"

definition series_abs :: "cell list \<Rightarrow> error + cell list" where
  "series_abs xs =
     map_err (\<lambda>a. case cell_num a of
                     Inl e \<Rightarrow> Inl e
                   | Inr None \<Rightarrow> Inr NaN
                   | Inr (Some u) \<Rightarrow> Inr (FloatV \<bar>u\<bar>)) xs"

text \<open>
  \<open>Series.quantile(q)\<close> with the default linear interpolation, over the values that are
  not missing.
\<close>

definition quantile :: "cell list \<Rightarrow> real \<Rightarrow> error + cell" where
  "quantile xs q =
     (case map_err cell_num xs of
        Inl e \<Rightarrow> Inl e
      | Inr os \<Rightarrow>
          (let vs = sort (List.map_filter (\<lambda>x. x) os)
           in if vs = [] then Inr NaN
              else (let h = (real (length vs) - 1) * q;
                        lo = nat \<lfloor>h\<rfloor>;
                        hi = min (lo + 1) (length vs - 1)
                    in Inr (FloatV (vs ! lo + (h - real lo) * (vs ! hi - vs ! lo))))))"

text \<open>\<open>df[cols]\<close> for a list of names: the frame of the named columns; a missing one raises.\<close>

definition df_select :: "dataframe \<Rightarrow> string list \<Rightarrow> error + dataframe" where
  "df_select df cols =
     map_err (\<lambda>c. case df_get df c of Inl e \<Rightarrow> Inl e | Inr v \<Rightarrow> Inr (c, v)) cols"

subsection \<open>The library: scikit-learn\<close>

text \<open>
  Values that cross the border to scikit-learn: frames, columns, numbers, and the objects
  of the library, which the model only passes around.
\<close>

datatype pyval =
    PyNone
  | PyNum real
  | PyStr string
  | PySeries "cell list"
  | PyFrame "(string \<times> cell list) list"
  | PyObj string nat
  | PyTuple "pyval list"
  | PyDict "(string \<times> pyval) list"

text \<open>
  The library is a parameter of the model: \<open>lib name args\<close> is what the callable \<open>name\<close>
  returns or raises on \<open>args\<close>. A method is named \<open>Class.method\<close>, receives its object
  first and returns the pair of the object after the call and the result.
\<close>

type_synonym library = "string \<Rightarrow> pyval list \<Rightarrow> error + pyval"

text \<open>What the run asks of the library is logged, in order.\<close>

datatype event = Construct string | Method string string | Function string

record platform =
  models :: "(string \<times> pyval) list"
  scalers :: "(string \<times> pyval) list"
  encoders :: "(string \<times> pyval) list"
  vectorizers :: "(string \<times> pyval) list"
  is_trained :: bool

record world =
  self :: platform
  calls :: "event list"

text \<open>\<open>LegalOperationsPlatform()\<close>: the state that \<open>__init__\<close> sets up.\<close>

definition init :: platform where
  "init = \<lparr>models = [], scalers = [], encoders = [], vectorizers = [], is_trained = False\<rparr>"

text \<open>
  The names bound at the top level of \<open>legal_operations_main.py\<close>: what its \<open>import\<close>
  statements bring in (lines 5 to 12) and what it defines. A name that is read and is not
  bound raises \<open>NameError\<close>.
\<close>

definition module_globals :: "string list" where
  "module_globals =
     [''pd'', ''np'', ''RandomForestClassifier'', ''GradientBoostingRegressor'',
      ''train_test_split'', ''StandardScaler'', ''LabelEncoder'', ''accuracy_score'',
      ''classification_report'', ''mean_squared_error'', ''TfidfVectorizer'', ''warnings'',
      ''LegalOperationsPlatform'', ''main'']"

definition load_global :: "string \<Rightarrow> world \<Rightarrow> (error + unit) \<times> world" where
  "load_global name w =
     (if name \<in> set module_globals then (Inr (), w) else (Inl (NameError name), w))"

definition record_call :: "event \<Rightarrow> world \<Rightarrow> (error + unit) \<times> world" where
  "record_call ev w = (Inr (), w\<lparr>calls := calls w @ [ev]\<rparr>)"

text \<open>\<open>Class(args)\<close>, \<open>function(args)\<close> and \<open>object.method(args)\<close>.\<close>

definition instantiate :: "library \<Rightarrow> string \<Rightarrow> pyval list \<Rightarrow> world \<Rightarrow> (error + pyval) \<times> world" where
  "instantiate lib cls args =
     rbind (load_global cls) (\<lambda>u.
     rbind (record_call (Construct cls)) (\<lambda>u.
     lift (lib cls args)))"

definition call_function ::
  "library \<Rightarrow> string \<Rightarrow> pyval list \<Rightarrow> world \<Rightarrow> (error + pyval) \<times> world" where
  "call_function lib name args =
     rbind (load_global name) (\<lambda>u.
     rbind (record_call (Function name)) (\<lambda>u.
     lift (lib name args)))"

definition call_method ::
  "library \<Rightarrow> string \<Rightarrow> string \<Rightarrow> pyval \<Rightarrow> pyval list \<Rightarrow> world
     \<Rightarrow> (error + pyval \<times> pyval) \<times> world" where
  "call_method lib cls name obj args =
     rbind (record_call (Method cls name)) (\<lambda>u.
     lift (case lib (cls @ ''.'' @ name) (obj # args) of
             Inl e \<Rightarrow> Inl e
           | Inr (PyTuple [obj', result]) \<Rightarrow> Inr (obj', result)
           | Inr v \<Rightarrow> Inr (obj, v)))"

text \<open>\<open>object.attribute\<close>, computed by the library: no call is made.\<close>

definition get_attr :: "library \<Rightarrow> string \<Rightarrow> string \<Rightarrow> pyval \<Rightarrow> world \<Rightarrow> (error + pyval) \<times> world" where
  "get_attr lib cls name obj = lift (lib (cls @ ''.'' @ name) [obj])"

text \<open>Reading and writing the attributes of \<open>self\<close>.\<close>

definition get_self :: "world \<Rightarrow> (error + platform) \<times> world" where
  "get_self w = (Inr (self w), w)"

definition set_self :: "(platform \<Rightarrow> platform) \<Rightarrow> world \<Rightarrow> (error + unit) \<times> world" where
  "set_self f w = (Inr (), w\<lparr>self := f (self w)\<rparr>)"

text \<open>Unpacking a returned sequence into \<open>n\<close> names.\<close>

definition unpack :: "nat \<Rightarrow> pyval \<Rightarrow> error + pyval list" where
  "unpack n v =
     (case v of
        PyTuple vs \<Rightarrow>
          if length vs = n then Inr vs
          else if length vs < n then Inl (ValueError ''not enough values to unpack'')
          else Inl (ValueError ''too many values to unpack'')
      | _ \<Rightarrow> Inl (TypeError ''cannot unpack non-iterable object''))"

definition as_series :: "pyval \<Rightarrow> error + cell list" where
  "as_series v =
     (case v of
        PySeries xs \<Rightarrow> Inr xs
      | _ \<Rightarrow> Inl (TypeError ''unsupported operand type(s)''))"

text \<open>\<open>np.mean\<close> of a numeric column, as a number, and a cell as a Python value.\<close>

definition series_mean :: "cell list \<Rightarrow> error + pyval" where
  "series_mean xs =
     (case map_err cell_num xs of
        Inl e \<Rightarrow> Inl e
      | Inr os \<Rightarrow>
          (let vs = List.map_filter (\<lambda>x. x) os
           in if vs = [] then Inr PyNone else Inr (PyNum (sum_list vs / real (length vs)))))"

definition cell_py :: "cell \<Rightarrow> pyval" where
  "cell_py c =
     (case c of
        NaN \<Rightarrow> PyNone
      | IntV i \<Rightarrow> PyNum (real_of_int i)
      | FloatV x \<Rightarrow> PyNum x
      | StrV t \<Rightarrow> PyStr t
      | BoolV b \<Rightarrow> PyNum (if b then 1 else 0)
      | DateV t \<Rightarrow> PyNum (real_of_int t))"

subsection \<open>\<open>engineer_legal_features\<close>\<close>

text \<open>
  One assignment \<open>df[col] = value\<close>, where computing the value may raise. The method
  adds its columns to the frame it was given and returns that frame.
\<close>

definition assign :: "string \<Rightarrow> error + cell list \<Rightarrow> dataframe \<Rightarrow> error + dataframe" where
  "assign col value df = (case value of Inl e \<Rightarrow> Inl e | Inr v \<Rightarrow> df_set df col v)"

definition column_op ::
  "(real \<Rightarrow> real \<Rightarrow> real) \<Rightarrow> dataframe \<Rightarrow> string \<Rightarrow> string \<Rightarrow> error + cell list" where
  "column_op f df a b =
     (case df_get df a of
        Inl e \<Rightarrow> Inl e
      | Inr xs \<Rightarrow> (case df_get df b of Inl e \<Rightarrow> Inl e | Inr ys \<Rightarrow> series_op f xs ys))"

definition column_gt_scalar :: "dataframe \<Rightarrow> string \<Rightarrow> real \<Rightarrow> error + cell list" where
  "column_gt_scalar df a c =
     (case df_get df a of
        Inl e \<Rightarrow> Inl e
      | Inr xs \<Rightarrow>
          (case series_gt_scalar xs (FloatV c) of
             Inl e \<Rightarrow> Inl e
           | Inr bs \<Rightarrow> Inr (astype_int bs)))"

definition column_gt_quantile :: "dataframe \<Rightarrow> string \<Rightarrow> real \<Rightarrow> error + cell list" where
  "column_gt_quantile df a q =
     (case df_get df a of
        Inl e \<Rightarrow> Inl e
      | Inr xs \<Rightarrow>
          (case quantile xs q of
             Inl e \<Rightarrow> Inl e
           | Inr t \<Rightarrow>
               (case series_gt_scalar xs t of
                  Inl e \<Rightarrow> Inl e
                | Inr bs \<Rightarrow> Inr (astype_int bs))))"

definition engineer_legal_features :: "dataframe \<Rightarrow> world \<Rightarrow> (error + dataframe) \<times> world" where
  "engineer_legal_features df =
    (rbind (lift (assign ''total_hours''
              (case column_op (+) df ''partner_hours'' ''associate_hours'' of
                 Inl e \<Rightarrow> Inl e
               | Inr s \<Rightarrow>
                   (case df_get df ''paralegal_hours'' of
                      Inl e \<Rightarrow> Inl e
                    | Inr p \<Rightarrow> series_op (+) s p)) df)) (\<lambda>df.
     rbind (lift (assign ''partner_ratio''
              (column_op (/) df ''partner_hours'' ''total_hours'') df)) (\<lambda>df.
     rbind (lift (assign ''cost_per_hour''
              (column_op (/) df ''total_cost'' ''total_hours'') df)) (\<lambda>df.
     rbind (lift (assign ''pages_per_hour''
              (column_op (/) df ''document_pages'' ''review_time_hours'') df)) (\<lambda>df.
     rbind (load_global ''np'') (\<lambda>u.
     rbind (lift (assign ''hour_variance''
              (case column_op (-) df ''hours_actual'' ''hours_estimated'' of
                 Inl e \<Rightarrow> Inl e
               | Inr d \<Rightarrow>
                   (case series_abs d of
                      Inl e \<Rightarrow> Inl e
                    | Inr a \<Rightarrow>
                        (case df_get df ''hours_estimated'' of
                           Inl e \<Rightarrow> Inl e
                         | Inr h \<Rightarrow> series_op (/) a h))) df)) (\<lambda>df.
     rbind (lift (assign ''high_efficiency''
              (column_gt_scalar df ''efficiency_ratio'' 1.1) df)) (\<lambda>df.
     rbind (lift (assign ''cost_overrun''
              (case df_get df ''hours_actual'' of
                 Inl e \<Rightarrow> Inl e
               | Inr a \<Rightarrow>
                   (case df_get df ''hours_estimated'' of
                      Inl e \<Rightarrow> Inl e
                    | Inr h \<Rightarrow>
                        (case series_scalar (*) h 1.2 of
                           Inl e \<Rightarrow> Inl e
                         | Inr limit \<Rightarrow>
                             (case series_gt a limit of
                                Inl e \<Rightarrow> Inl e
                              | Inr bs \<Rightarrow> Inr (astype_int bs))))) df)) (\<lambda>df.
     rbind (lift (assign ''high_value_case''
              (column_gt_quantile df ''case_value'' 0.75) df)) (\<lambda>df.
     rbind (lift (assign ''document_intensive''
              (column_gt_quantile df ''document_pages'' 0.8) df)) (\<lambda>df.
     rbind (lift (assign ''partner_intensive''
              (column_gt_scalar df ''partner_ratio'' 0.3) df)) (\<lambda>df.
     rbind (lift (assign ''high_satisfaction''
              (column_gt_scalar df ''client_satisfaction'' 8) df)) (\<lambda>df.
     rbind (lift (assign ''profitable_case''
              (column_gt_scalar df ''profit_margin'' 20) df)) (\<lambda>df.
     ret df))))))))))))))"

subsection \<open>\<open>prepare_data_for_modeling\<close>\<close>

definition categorical_cols :: "string list" where
  "categorical_cols = [''practice_area'', ''document_type'', ''complexity'', ''client_type'']"

definition feature_cols :: "string list" where
  "feature_cols =
     [''case_value'', ''hours_estimated'', ''document_pages'', ''review_time_hours'',
      ''billing_rate_partner'', ''billing_rate_associate'', ''billing_rate_paralegal'',
      ''document_complexity_score'', ''total_hours'', ''partner_ratio'', ''cost_per_hour'',
      ''pages_per_hour'', ''hour_variance'', ''high_efficiency'', ''cost_overrun'',
      ''high_value_case'', ''document_intensive'', ''partner_intensive'']
     @ map (\<lambda>col. col @ ''_encoded'') categorical_cols"

text \<open>
  The body of the loop over the categorical columns: a column met for the first time gets
  a new \<open>LabelEncoder\<close>, fitted on it; otherwise the stored encoder transforms it.
\<close>

definition encode_column :: "library \<Rightarrow> string \<Rightarrow> dataframe \<Rightarrow> world \<Rightarrow> (error + dataframe) \<times> world" where
  "encode_column lib col df =
     rbind get_self (\<lambda>s.
       case map_of (encoders s) col of
         None \<Rightarrow>
           rbind (instantiate lib ''LabelEncoder'' []) (\<lambda>encoder.
           rbind (set_self (\<lambda>s. s\<lparr>encoders := AList.update col encoder (encoders s)\<rparr>)) (\<lambda>u.
           rbind (lift (df_get df col)) (\<lambda>column.
           rbind (call_method lib ''LabelEncoder'' ''fit_transform'' encoder [PySeries column])
             (\<lambda>r.
           rbind (set_self (\<lambda>s. s\<lparr>encoders := AList.update col (fst r) (encoders s)\<rparr>)) (\<lambda>u.
           lift (assign (col @ ''_encoded'') (as_series (snd r)) df))))))
       | Some encoder \<Rightarrow>
           rbind (lift (df_get df col)) (\<lambda>column.
           rbind (call_method lib ''LabelEncoder'' ''transform'' encoder [PySeries column])
             (\<lambda>r.
           rbind (set_self (\<lambda>s. s\<lparr>encoders := AList.update col (fst r) (encoders s)\<rparr>)) (\<lambda>u.
           lift (assign (col @ ''_encoded'') (as_series (snd r)) df)))))"

fun encode_columns ::
  "library \<Rightarrow> string list \<Rightarrow> dataframe \<Rightarrow> world \<Rightarrow> (error + dataframe) \<times> world" where
  "encode_columns lib [] df = ret df"
| "encode_columns lib (col # cols) df =
     rbind (encode_column lib col df) (\<lambda>df. encode_columns lib cols df)"

definition prepare_data_for_modeling ::
  "library \<Rightarrow> dataframe \<Rightarrow> world \<Rightarrow> (error + dataframe \<times> string list) \<times> world" where
  "prepare_data_for_modeling lib df =
     rbind (engineer_legal_features df) (\<lambda>df.
     rbind (encode_columns lib categorical_cols df) (\<lambda>df.
     ret (df, feature_cols)))"

subsection \<open>\<open>train_legal_models\<close>\<close>

text \<open>
  The accuracy of a regression, \<open>1 - np.mean(np.abs(y_test - y_pred) / y_test)\<close>.
\<close>

definition relative_accuracy :: "pyval \<Rightarrow> pyval \<Rightarrow> error + pyval" where
  "relative_accuracy y_test y_pred =
     (case as_series y_test of
        Inl e \<Rightarrow> Inl e
      | Inr t \<Rightarrow>
          (case as_series y_pred of
             Inl e \<Rightarrow> Inl e
           | Inr p \<Rightarrow>
               (case series_op (-) t p of
                  Inl e \<Rightarrow> Inl e
                | Inr d \<Rightarrow>
                    (case series_abs d of
                       Inl e \<Rightarrow> Inl e
                     | Inr a \<Rightarrow>
                         (case series_op (/) a t of
                            Inl e \<Rightarrow> Inl e
                          | Inr r \<Rightarrow>
                              (case series_mean r of
                                 Inl e \<Rightarrow> Inl e
                               | Inr (PyNum m) \<Rightarrow> Inr (PyNum (1 - m))
                               | Inr v \<Rightarrow> Inr v))))))"

definition forest_params :: "pyval list" where
  "forest_params =
     [PyDict [(''n_estimators'', PyNum 500), (''max_depth'', PyNum 12),
              (''random_state'', PyNum 42), (''n_jobs'', PyNum (- 1))]]"

definition boosting_params :: "pyval list" where
  "boosting_params =
     [PyDict [(''n_estimators'', PyNum 500), (''learning_rate'', PyNum 0.1),
              (''max_depth'', PyNum 8), (''random_state'', PyNum 42)]]"

text \<open>
  The method, statement by statement (lines 147 to 227). It adds the engineered and the
  encoded columns to the frame it was given, so the model returns that frame beside the
  \<open>results\<close> dictionary. A constructor and a function are names that are looked up when
  the statement runs; an object that a method call changes is stored again where the
  source holds it. \<open>parts\<close> are the ten arrays of \<open>train_test_split\<close> in the order of
  line 165: \<open>X_train\<close>, \<open>X_test\<close>, then the training and the test part of the outcome,
  the satisfaction, the hours and the cost.
\<close>

definition train_legal_models ::
  "library \<Rightarrow> dataframe \<Rightarrow> world \<Rightarrow> (error + dataframe \<times> (string \<times> pyval) list) \<times> world" where
  "train_legal_models lib df =
    (rbind (prepare_data_for_modeling lib df) (\<lambda>prepared.
     rbind (lift (df_select (fst prepared) (snd prepared))) (\<lambda>X.
     rbind (lift (df_get (fst prepared) ''case_outcome'')) (\<lambda>y_outcome.
     rbind (lift (df_get (fst prepared) ''client_satisfaction'')) (\<lambda>y_satisfaction.
     rbind (lift (df_get (fst prepared) ''hours_actual'')) (\<lambda>y_hours.
     rbind (lift (df_get (fst prepared) ''total_cost'')) (\<lambda>y_cost.
     rbind (call_function lib ''train_test_split''
              [PyFrame X, PySeries y_outcome, PySeries y_satisfaction, PySeries y_hours,
               PySeries y_cost, PyDict [(''test_size'', PyNum 0.2), (''random_state'', PyNum 42)]])
       (\<lambda>split.
     rbind (lift (unpack 10 split)) (\<lambda>parts.
     rbind (instantiate lib ''StandardScaler'' []) (\<lambda>scaler.
     rbind (set_self (\<lambda>s. s\<lparr>scalers := AList.update ''features'' scaler (scalers s)\<rparr>)) (\<lambda>u.
     rbind (call_method lib ''StandardScaler'' ''fit_transform'' scaler [parts ! 0])
       (\<lambda>fitted.
     rbind (set_self (\<lambda>s. s\<lparr>scalers := AList.update ''features'' (fst fitted) (scalers s)\<rparr>))
       (\<lambda>u.
     rbind (call_method lib ''StandardScaler'' ''transform'' (fst fitted) [parts ! 1])
       (\<lambda>transformed.
     rbind (set_self
              (\<lambda>s. s\<lparr>scalers := AList.update ''features'' (fst transformed) (scalers s)\<rparr>))
       (\<lambda>u.
     rbind (instantiate lib ''LabelEncoder'' []) (\<lambda>outcome_encoder.
     rbind (call_method lib ''LabelEncoder'' ''fit_transform'' outcome_encoder [parts ! 2])
       (\<lambda>train_encoded.
     rbind (call_method lib ''LabelEncoder'' ''transform'' (fst train_encoded) [parts ! 3])
       (\<lambda>test_encoded.
     rbind (instantiate lib ''RandomForestClassifier'' forest_params) (\<lambda>rf_outcome.
     rbind (call_method lib ''RandomForestClassifier'' ''fit'' rf_outcome
              [snd fitted, snd train_encoded]) (\<lambda>rf_fitted.
     rbind (set_self
              (\<lambda>s. s\<lparr>models := AList.update ''outcome_predictor'' (fst rf_fitted) (models s)\<rparr>))
       (\<lambda>u.
     rbind (call_method lib ''RandomForestClassifier'' ''predict'' (fst rf_fitted)
              [snd transformed]) (\<lambda>y_out_pred.
     rbind (call_function lib ''accuracy_score'' [snd test_encoded, snd y_out_pred])
       (\<lambda>outcome_accuracy.
     rbind (instantiate lib ''GradientBoostingRegressor'' boosting_params) (\<lambda>gb_hours.
     rbind (call_method lib ''GradientBoostingRegressor'' ''fit'' gb_hours
              [snd fitted, parts ! 6]) (\<lambda>gb_fitted.
     rbind (set_self
              (\<lambda>s. s\<lparr>models := AList.update ''hours_predictor'' (fst gb_fitted) (models s)\<rparr>))
       (\<lambda>u.
     rbind (call_method lib ''GradientBoostingRegressor'' ''predict'' (fst gb_fitted)
              [snd transformed]) (\<lambda>y_hrs_pred.
     rbind (call_function lib ''mean_squared_error'' [parts ! 7, snd y_hrs_pred])
       (\<lambda>hours_mse.
     rbind (load_global ''np'') (\<lambda>u.
     rbind (lift (relative_accuracy (parts ! 7) (snd y_hrs_pred))) (\<lambda>hours_accuracy.
     rbind (instantiate lib ''RandomForestRegressor'' forest_params) (\<lambda>rf_cost.
     rbind (call_method lib ''RandomForestRegressor'' ''fit'' rf_cost [snd fitted, parts ! 8])
       (\<lambda>cost_fitted.
     rbind (set_self
              (\<lambda>s. s\<lparr>models := AList.update ''cost_predictor'' (fst cost_fitted) (models s)\<rparr>))
       (\<lambda>u.
     rbind (call_method lib ''RandomForestRegressor'' ''predict'' (fst cost_fitted)
              [snd transformed]) (\<lambda>y_cost_pred.
     rbind (call_function lib ''mean_squared_error'' [parts ! 9, snd y_cost_pred])
       (\<lambda>cost_mse.
     rbind (load_global ''np'') (\<lambda>u.
     rbind (lift (relative_accuracy (parts ! 9) (snd y_cost_pred))) (\<lambda>cost_accuracy.
     rbind (get_attr lib ''RandomForestClassifier'' ''feature_importances_'' (fst rf_fitted))
       (\<lambda>importances.
     rbind (lift (as_series importances)) (\<lambda>importance.
     rbind (set_self (\<lambda>s. s\<lparr>is_trained := True\<rparr>)) (\<lambda>u.
     ret (fst prepared,
          [(''outcome_prediction'',
              PyDict [(''accuracy'', outcome_accuracy),
                      (''model_type'', PyStr ''Random Forest Classifier'')]),
           (''hours_prediction'',
              PyDict [(''mse'', hours_mse), (''accuracy'', hours_accuracy),
                      (''model_type'', PyStr ''Gradient Boosting Regressor'')]),
           (''cost_prediction'',
              PyDict [(''mse'', cost_mse), (''accuracy'', cost_accuracy),
                      (''model_type'', PyStr ''Random Forest Regressor'')]),
           (''feature_importance'',
              PyDict (zip (snd prepared) (map cell_py importance)))])
     ))))))))))))))))))))))))))))))))))))))))"

text \<open>
  A library on which the model can be run: every call succeeds. A constructor returns an
  object, \<open>train_test_split\<close> gives back each array as its training and its test part,
  \<open>predict\<close> answers 1 for every row, a metric is 1, and the other methods return their
  argument.
\<close>

definition obliging_library :: library where
  "obliging_library name args =
     (if name = ''train_test_split''
        then Inr (PyTuple (concat (map (\<lambda>a. [a, a]) (take 5 args))))
      else if name \<in> {''accuracy_score'', ''mean_squared_error''} then Inr (PyNum 1)
      else if name \<in> {''RandomForestClassifier.predict'', ''GradientBoostingRegressor.predict'',
                        ''RandomForestRegressor.predict''}
        then (case args of
                [obj, PyFrame X] \<Rightarrow> Inr (PySeries (replicate (nrows X) (FloatV 1)))
              | _ \<Rightarrow> Inr (PySeries []))
      else if name \<in> {''StandardScaler'', ''LabelEncoder'', ''RandomForestClassifier'',
                        ''GradientBoostingRegressor'', ''RandomForestRegressor''}
        then Inr (PyObj name 0)
      else (case args of [obj, x] \<Rightarrow> Inr x | _ \<Rightarrow> Inr PyNone))"

text \<open>
  The frame on which the runs below train: what \<open>generate_legal_data(1)\<close> returns on the
  counter sampler. A run starts from a platform as \<open>__init__\<close> leaves it, with an empty
  log.
\<close>

definition one_case_frame :: dataframe where
  "one_case_frame =
     [(''case_id'', [IntV 1]), (''practice_area'', [StrV ''Corporate'']),
      (''document_type'', [StrV ''Brief'']), (''complexity'', [StrV ''Low'']),
      (''client_type'', [StrV ''Fortune 500'']), (''case_value'', [FloatV 2]),
      (''hours_estimated'', [FloatV 3]), (''hours_actual'', [FloatV 1]),
      (''partner_hours'', [FloatV 4]), (''associate_hours'', [FloatV 0]),
      (''paralegal_hours'', [FloatV 1]), (''document_pages'', [FloatV 2]),
      (''review_time_hours'', [FloatV 3]), (''client_satisfaction'', [FloatV (15 / 2)]),
      (''billing_rate_partner'', [FloatV 801]), (''billing_rate_associate'', [FloatV 400]),
      (''billing_rate_paralegal'', [FloatV 151]), (''case_outcome'', [StrV ''Dismissed'']),
      (''total_cost'', [FloatV 3355]), (''profit_margin'', [FloatV (- 167650)]),
      (''efficiency_ratio'', [FloatV 3]), (''document_complexity_score'', [FloatV (264 / 5)])]"

definition new_platform :: world where
  "new_platform = \<lparr>self = init, calls = []\<rparr>"

text \<open>
  A library whose \<open>RandomForestClassifier.fit\<close> raises, and which obliges otherwise.
\<close>

definition failing_fit_library :: library where
  "failing_fit_library name args =
     (if name = ''RandomForestClassifier.fit'' then Inl (ValueError ''fit failed'')
      else obliging_library name args)"





text \<open>
  \<open>fails m\<close>: the step \<open>m\<close> never returns normally. \<open>emits m fs\<close>: the step only appends
  to the log, and the model events it appends are an initial part of \<open>fs\<close>, all of \<open>fs\<close>
  when it returns normally. \<open>keeps f m\<close>: the step leaves the attribute \<open>f\<close> of \<open>self\<close>
  as it was. \<open>propagates m ev e\<close>: once the step has logged the call \<open>ev\<close> it logs
  nothing more and raises \<open>e\<close>.
\<close>

definition fails :: "('s \<Rightarrow> (error + 'a) \<times> 's) \<Rightarrow> bool" where
  "fails m = (\<forall>w. \<exists>e. fst (m w) = Inl e)"


definition keeps :: "(platform \<Rightarrow> 'b) \<Rightarrow> (world \<Rightarrow> (error + 'a) \<times> world) \<Rightarrow> bool" where
  "keeps f m = (\<forall>w. f (self (snd (m w))) = f (self w))"


text \<open>
  The attributes that \<open>prepare_data_for_modeling\<close> may change are the encoders. Up to line
  198 \<open>train_legal_models\<close> stores the scaler and the two predictors, and nothing else:
  \<open>untrained_part\<close> is what the method has yet to set there.
\<close>

definition apart_from_encoders :: "(platform \<Rightarrow> 'b) \<Rightarrow> bool" where
  "apart_from_encoders f = (\<forall>s v. f (s\<lparr>encoders := v\<rparr>) = f s)"

definition untrained_part :: "platform \<Rightarrow> bool \<times> pyval option" where
  "untrained_part s = (is_trained s, map_of (models s) ''cost_predictor'')"

section \<open>The Streamlit application: \<open>LegalOperationsApp\<close>\<close>

subsection \<open>Strings, dates and masked assignment\<close>

text \<open>\<open>str(i)\<close> for an integer, and the zero padding of \<open>{i:04d}\<close> for \<open>i \<ge> 0\<close>.\<close>

function str_nat :: "nat \<Rightarrow> string" where
  "str_nat n =
     (if n < 10 then [char_of (48 + n)]
      else str_nat (n div 10) @ [char_of (48 + n mod 10)])"
  by pat_completeness auto
termination
  by (relation "measure (\<lambda>n. n)") auto

declare str_nat.simps [simp del]

definition str_int :: "int \<Rightarrow> string" where
  "str_int i = (if i < 0 then CHR ''-'' # str_nat (nat (- i)) else str_nat (nat i))"

definition zfill :: "nat \<Rightarrow> string \<Rightarrow> string" where
  "zfill w s = replicate (w - length s) CHR ''0'' @ s"

text \<open>
  \<open>pd.Timestamp('y-m-d')\<close> in nanoseconds since the epoch; the day number is the usual
  count of days of the proleptic Gregorian calendar.
\<close>

definition days_from_civil :: "int \<Rightarrow> int \<Rightarrow> int \<Rightarrow> int" where
  "days_from_civil y m d =
     (let y' = (if m \<le> 2 then y - 1 else y);
          era = y' div 400;
          yoe = y' - era * 400;
          doy = (153 * (m + (if m > 2 then - 3 else 9)) + 2) div 5 + d - 1;
          doe = yoe * 365 + yoe div 4 - yoe div 100 + doy
      in era * 146097 + doe - 719468)"

definition Timedelta_days :: "int \<Rightarrow> int" where
  "Timedelta_days d = d * 86400 * 1000000000"

definition Timestamp :: "int \<Rightarrow> int \<Rightarrow> int \<Rightarrow> int" where
  "Timestamp y m d = Timedelta_days (days_from_civil y m d)"

text \<open>
  \<open>pd.date_range(start, end, periods=n)\<close>: \<open>n\<close> evenly spaced instants from \<open>start\<close> to
  \<open>end\<close>, rounded down to the nanosecond. The spacing is computed exactly here; pandas
  goes through \<open>float64\<close>.
\<close>

definition date_range :: "int \<Rightarrow> int \<Rightarrow> int \<Rightarrow> error + int list" where
  "date_range start stop periods =
     (if periods < 0 then Inl (ValueError ''Number of periods must be non-negative'')
      else if periods = 1 then Inr [start]
      else Inr (map (\<lambda>i. start + (i * (stop - start)) div (periods - 1)) [0..periods - 1]))"

text \<open>
  \<open>pd.date_range(start, end, freq='M')\<close>: the month ends from \<open>start\<close> to \<open>end\<close>. A month
  is numbered \<open>12 * year + month - 1\<close>.
\<close>

definition month_end :: "int \<Rightarrow> int" where
  "month_end k = Timestamp ((k + 1) div 12) ((k + 1) mod 12 + 1) 1 - Timedelta_days 1"

definition date_range_month_end :: "int \<times> int \<times> int \<Rightarrow> int \<times> int \<times> int \<Rightarrow> int list" where
  "date_range_month_end start stop =
     (case start of (y1, m1, d1) \<Rightarrow>
      case stop of (y2, m2, d2) \<Rightarrow>
        filter (\<lambda>t. Timestamp y1 m1 d1 \<le> t \<and> t \<le> Timestamp y2 m2 d2)
          (map month_end [y1 * 12 + m1 - 1..y2 * 12 + m2 - 1]))"

text \<open>A list comprehension over \<open>range(n)\<close> whose body draws one sample.\<close>

definition repeat_draw :: "('g \<Rightarrow> 'a \<times> 'g) \<Rightarrow> int \<Rightarrow> 'g \<Rightarrow> (error + 'a list) \<times> 'g" where
  "repeat_draw f n g = (case draws f (nat n) g of (xs, g') \<Rightarrow> (Inr xs, g'))"

text \<open>
  Boolean masks. \<open>mask.sum()\<close> counts the selected rows, \<open>series[mask]\<close> keeps them, and
  \<open>df.loc[mask, col] = values\<close> writes the values, in order, into the selected rows of
  the column; a column that did not exist is created with \<open>NaN\<close> in the other rows.
\<close>

definition mask_sum :: "bool list \<Rightarrow> nat" where
  "mask_sum sel = length (filter (\<lambda>b. b) sel)"

definition select :: "bool list \<Rightarrow> 'a list \<Rightarrow> 'a list" where
  "select sel xs = map snd (filter fst (zip sel xs))"

fun scatter :: "cell list \<Rightarrow> bool list \<Rightarrow> cell list \<Rightarrow> cell list" where
  "scatter (c # cs) (m # ms) vs =
     (if m then (case vs of [] \<Rightarrow> c # scatter cs ms [] | v # vs' \<Rightarrow> v # scatter cs ms vs')
      else c # scatter cs ms vs)"
| "scatter cs ms vs = cs"

definition loc_set :: "dataframe \<Rightarrow> bool list \<Rightarrow> string \<Rightarrow> cell list \<Rightarrow> error + dataframe" where
  "loc_set df sel col vs =
     (if mask_sum sel \<noteq> length vs
        then Inl (ValueError ''Must have equal len keys and value when setting with an iterable'')
      else (case map_of df col of
              None \<Rightarrow> Inr (AList.update col (scatter (replicate (nrows df) NaN) sel vs) df)
            | Some old \<Rightarrow> Inr (AList.update col (scatter old sel vs) df)))"

subsection \<open>\<open>generate_legal_cases_data\<close>\<close>

definition generate_legal_cases_data ::
  "'g np_random \<Rightarrow> int \<Rightarrow> 'g \<Rightarrow> (error + dataframe) \<times> 'g" where
  "generate_legal_cases_data np n_cases =
    (rbind (np_seed np 42) (\<lambda>u.
     rbind (np_choice np [''Litigation'', ''Corporate'', ''Employment'', ''IP'', ''Regulatory'',
                          ''Compliance'', ''Real Estate'', ''Tax''] n_cases None)
       (\<lambda>practice_area.
     rbind (np_choice np [''Civil Litigation'', ''Criminal Defense'', ''Contract Dispute'',
                          ''Employment Dispute'', ''IP Infringement'',
                          ''Regulatory Investigation'', ''M&A Transaction'', ''Tax Appeal'']
                      n_cases None) (\<lambda>case_type.
     rbind (np_choice np [''Active'', ''Pending'', ''Settlement'', ''Trial'', ''Closed'',
                          ''On Hold''] n_cases (Some [0.3, 0.15, 0.2, 0.1, 0.2, 0.05]))
       (\<lambda>status.
     rbind (np_choice np [''Low'', ''Medium'', ''High'', ''Critical''] n_cases
              (Some [0.2, 0.4, 0.3, 0.1])) (\<lambda>risk_level.
     rbind (lift (date_range (Timestamp 2020 1 1) (Timestamp 2024 12 31) n_cases))
       (\<lambda>filing_date.
     rbind (repeat_draw (draw_randint np 1 25) n_cases) (\<lambda>assigned_attorney.
     rbind (repeat_draw (draw_randint np 1 50) n_cases) (\<lambda>client.
     rbind (repeat_draw (draw_randint np 1 30) n_cases) (\<lambda>opposing_counsel.
     rbind (lift (DataFrame
       [(''case_id'', map (\<lambda>i. StrV (''CASE-'' @ zfill 4 (str_nat i))) [0..<nat n_cases]),
        (''case_name'', map (\<lambda>i. StrV (''Legal Matter '' @ str_nat (i + 1))) [0..<nat n_cases]),
        (''practice_area'', map StrV practice_area),
        (''case_type'', map StrV case_type),
        (''status'', map StrV status),
        (''risk_level'', map StrV risk_level),
        (''filing_date'', map DateV filing_date),
        (''assigned_attorney'', map (\<lambda>k. StrV (''Attorney_'' @ str_int k)) assigned_attorney),
        (''client'', map (\<lambda>k. StrV (''Client_'' @ str_int k)) client),
        (''opposing_counsel'',
           map (\<lambda>k. StrV (''Opposing_Firm_'' @ str_int k)) opposing_counsel)])) (\<lambda>data.
     rbind (sized (draw_lognormal np 11 1.5) n_cases) (\<lambda>base_values.
     rbind (lift (map_err
              (\<lambda>(base_value, level).
                 case dict_get [(''Low'', 0.5), (''Medium'', 1.0), (''High'', 2.0),
                                (''Critical'', 5.0)] level of
                   Inl e \<Rightarrow> Inl e
                 | Inr risk_multiplier \<Rightarrow> Inr (base_value * risk_multiplier))
              (zip base_values risk_level))) (\<lambda>potential_exposure.
     rbind (lift (df_set data ''potential_exposure'' (map FloatV potential_exposure)))
       (\<lambda>data.
     rbind (sized (draw_uniform np 0.05 0.25) n_cases) (\<lambda>fee_share.
     let legal_fees_spent = map2 (*) potential_exposure fee_share in
     rbind (lift (df_set data ''legal_fees_spent'' (map FloatV legal_fees_spent))) (\<lambda>data.
     rbind (sized (draw_uniform np 1.2 3.0) n_cases) (\<lambda>cost_factor.
     rbind (lift (df_set data ''estimated_total_cost''
              (map FloatV (map2 (*) legal_fees_spent cost_factor)))) (\<lambda>data.
     rbind (lift (df_get data ''status'')) (\<lambda>status_column.
     let closed_cases = map (\<lambda>c. c = StrV ''Closed'') status_column in
     rbind (np_choice np [''Won'', ''Lost'', ''Settled''] (int (mask_sum closed_cases))
              (Some [0.4, 0.2, 0.4])) (\<lambda>outcomes.
     rbind (lift (loc_set data closed_cases ''outcome'' (map StrV outcomes))) (\<lambda>data.
     rbind (lift (df_get data ''outcome'')) (\<lambda>outcome_column.
     let settled_cases = map (\<lambda>c. c = StrV ''Settled'') outcome_column in
     rbind (sized (draw_uniform np 0.1 0.8) (int (mask_sum settled_cases))) (\<lambda>share.
     rbind (lift (loc_set data settled_cases ''settlement_amount''
              (map FloatV (map2 (*) (select settled_cases potential_exposure) share))))
       (\<lambda>data.
     ret data))))))))))))))))))))))))"

subsection \<open>\<open>generate_contracts_data\<close>\<close>

text \<open>
  \<open>generate_contracts_data(n_contracts)\<close> reads the clock: \<open>now\<close> is the value of
  \<open>pd.Timestamp.now()\<close> at the call, in nanoseconds since the epoch.
\<close>

definition generate_contracts_data ::
  "'g np_random \<Rightarrow> int \<Rightarrow> int \<Rightarrow> 'g \<Rightarrow> (error + dataframe) \<times> 'g" where
  "generate_contracts_data np now n_contracts =
    (rbind (np_seed np 42) (\<lambda>u.
     let counterparties = map (\<lambda>i. ''Counterparty_'' @ str_int i) [1..50] in
     rbind (np_choice np [''Service Agreement'', ''Supply Contract'', ''Employment Contract'',
                          ''NDA'', ''Licensing Agreement'', ''Partnership Agreement'',
                          ''Real Estate Lease'', ''Insurance Policy''] n_contracts None)
       (\<lambda>contract_type.
     rbind (np_choice np counterparties n_contracts None) (\<lambda>counterparty.
     rbind (lift (date_range (Timestamp 2019 1 1) (Timestamp 2024 6 30) n_contracts))
       (\<lambda>start_date.
     rbind (sized (draw_lognormal np 12 1.2) n_contracts) (\<lambda>contract_value.
     rbind (np_choice np [12, 24, 36, 60] n_contracts (Some [0.3, 0.4, 0.2, 0.1]))
       (\<lambda>duration_months.
     rbind (lift (DataFrame
       [(''contract_id'',
           map (\<lambda>i. StrV (''CONTRACT-'' @ zfill 4 (str_nat i))) [0..<nat n_contracts]),
        (''contract_type'', map StrV contract_type),
        (''counterparty'', map StrV counterparty),
        (''start_date'', map DateV start_date),
        (''contract_value'', map FloatV contract_value),
        (''duration_months'', map IntV duration_months)])) (\<lambda>data.
     let end_date = map2 (\<lambda>s m. s + Timedelta_days (m * 30)) start_date duration_months in
     rbind (lift (df_set data ''end_date'' (map DateV end_date))) (\<lambda>data.
     rbind (sized (draw_beta np 2 5) n_contracts) (\<lambda>risk.
     rbind (lift (df_set data ''risk_score'' (map (\<lambda>x. FloatV (x * 10)) risk))) (\<lambda>data.
     rbind (sized (draw_beta np 5 2) n_contracts) (\<lambda>performance.
     rbind (lift (df_set data ''performance_score''
              (map (\<lambda>x. FloatV (x * 10)) performance))) (\<lambda>data.
     let current_date = now in
     rbind (lift (df_set data ''status'' (replicate (nrows data) (StrV ''Active''))))
       (\<lambda>data.
     let expired = map (\<lambda>e. e < current_date) end_date in
     rbind (lift (loc_set data expired ''status''
              (replicate (mask_sum expired) (StrV ''Expired'')))) (\<lambda>data.
     let due = map (\<lambda>e. e - current_date < Timedelta_days 90) end_date in
     rbind (lift (loc_set data due ''renewal_required''
              (replicate (mask_sum due) (BoolV True)))) (\<lambda>data.
     rbind (lift (df_get data ''renewal_required'')) (\<lambda>renewal_required.
     rbind (lift (df_set data ''renewal_required''
              (map (\<lambda>c. if c = NaN then BoolV False else c) renewal_required))) (\<lambda>data.
     rbind (np_choice np [True, False] n_contracts (Some [0.15, 0.85]))
       (\<lambda>compliance_issues.
     rbind (lift (df_set data ''compliance_issues'' (map BoolV compliance_issues)))
       (\<lambda>data.
     rbind (np_choice np [True, False] n_contracts (Some [0.6, 0.4])) (\<lambda>auto_renewal.
     rbind (lift (df_set data ''auto_renewal'' (map BoolV auto_renewal))) (\<lambda>data.
     ret data))))))))))))))))))))))"

subsection \<open>\<open>generate_compliance_data\<close>\<close>

text \<open>
  The body of the innermost loop: the five draws of one appended row, in the order of the
  dictionary literal.
\<close>

definition compliance_row ::
  "'g np_random \<Rightarrow> string \<times> string \<times> int \<Rightarrow> 'g \<Rightarrow> (error + cell list) \<times> 'g" where
  "compliance_row np key =
     (case key of (unit, area, month) \<Rightarrow>
      rbind (\<lambda>g. case draw_beta np 4 2 g of (x, g') \<Rightarrow> (Inr x, g')) (\<lambda>score.
      rbind (np_choice1 np [''Low'', ''Medium'', ''High''] (Some [0.6, 0.3, 0.1]))
        (\<lambda>risk_rating.
      rbind (\<lambda>g. case draw_poisson np 0.5 g of (x, g') \<Rightarrow> (Inr x, g')) (\<lambda>violations_count.
      rbind (\<lambda>g. case draw_beta np 8 2 g of (x, g') \<Rightarrow> (Inr x, g')) (\<lambda>training_completion.
      rbind (\<lambda>g. case draw_poisson np 1.2 g of (x, g') \<Rightarrow> (Inr x, g')) (\<lambda>audit_findings.
      ret [StrV unit, StrV area, DateV month, FloatV (score * 10), StrV risk_rating,
           IntV violations_count, FloatV training_completion, IntV audit_findings]))))))"

fun compliance_rows ::
  "'g np_random \<Rightarrow> (string \<times> string \<times> int) list \<Rightarrow> 'g \<Rightarrow> (error + cell list list) \<times> 'g" where
  "compliance_rows np [] g = (Inr [], g)"
| "compliance_rows np (key # keys) g =
     (case compliance_row np key g of
        (Inl e, g') \<Rightarrow> (Inl e, g')
      | (Inr row, g') \<Rightarrow>
          (case compliance_rows np keys g' of
             (Inl e, g'') \<Rightarrow> (Inl e, g'')
           | (Inr rows, g'') \<Rightarrow> (Inr (row # rows), g'')))"

text \<open>\<open>pd.DataFrame(list of dicts)\<close>: one column for each key, in the order of the keys.\<close>

definition frame_of_rows :: "string list \<Rightarrow> cell list list \<Rightarrow> dataframe" where
  "frame_of_rows cols rows = map (\<lambda>(j, col). (col, map (\<lambda>row. row ! j) rows)) (enumerate 0 cols)"

definition generate_compliance_data :: "'g np_random \<Rightarrow> 'g \<Rightarrow> (error + dataframe) \<times> 'g" where
  "generate_compliance_data np =
    (rbind (np_seed np 42) (\<lambda>u.
     let business_units = [''Corporate'', ''Finance'', ''HR'', ''IT'', ''Operations'', ''Sales'',
                           ''Marketing'', ''R&D''];
         compliance_areas = [''Data Privacy'', ''Financial Regulations'', ''Employment Law'',
                             ''Environmental'', ''Safety'', ''Anti-Corruption'',
                             ''Trade Compliance'', ''Industry Standards''];
         months = date_range_month_end (2023, 1, 1) (2024, 12, 31)
     in
     rbind (compliance_rows np
              (concat (map (\<lambda>unit.
                 concat (map (\<lambda>area. map (\<lambda>month. (unit, area, month)) months)
                           compliance_areas))
                 business_units))) (\<lambda>data.
     ret (frame_of_rows
            [''business_unit'', ''compliance_area'', ''assessment_date'', ''compliance_score'',
             ''risk_rating'', ''violations_count'', ''training_completion'', ''audit_findings'']
            data))))"

subsection \<open>\<open>generate_vendor_data\<close>\<close>

definition generate_vendor_data ::
  "'g np_random \<Rightarrow> int \<Rightarrow> 'g \<Rightarrow> (error + dataframe) \<times> 'g" where
  "generate_vendor_data np n_vendors =
    (rbind (np_seed np 42) (\<lambda>u.
     rbind (np_choice np [''Law Firm'', ''Technology Vendor'', ''Consulting Firm'',
                          ''Expert Witness'', ''Court Reporter'', ''Investigation Firm'',
                          ''Translation Service'', ''Legal Research''] n_vendors None)
       (\<lambda>vendor_type.
     rbind (sized (draw_lognormal np 10 1.5) n_vendors) (\<lambda>annual_spend.
     rbind (sized (draw_beta np 4 2) n_vendors) (\<lambda>performance.
     rbind (np_choice np [''Diverse'', ''Non-Diverse''] n_vendors (Some [0.3, 0.7]))
       (\<lambda>diversity_status.
     rbind (lift (date_range (Timestamp 2019 1 1) (Timestamp 2023 12 31) n_vendors))
       (\<lambda>contract_start.
     rbind (np_choice np [30, 45, 60] n_vendors (Some [0.5, 0.3, 0.2]))
       (\<lambda>payment_terms_days.
     rbind (sized (draw_beta np 5 1) n_vendors) (\<lambda>invoice_accuracy.
     rbind (sized (draw_exponential np 24) n_vendors) (\<lambda>response_time_hours.
     rbind (lift (DataFrame
       [(''vendor_id'',
           map (\<lambda>i. StrV (''VENDOR-'' @ zfill 3 (str_nat i))) [0..<nat n_vendors]),
        (''vendor_name'', map (\<lambda>i. StrV (''Vendor_'' @ str_int i)) [1..n_vendors]),
        (''vendor_type'', map StrV vendor_type),
        (''annual_spend'', map FloatV annual_spend),
        (''performance_score'', map (\<lambda>x. FloatV (x * 10)) performance),
        (''diversity_status'', map StrV diversity_status),
        (''contract_start'', map DateV contract_start),
        (''payment_terms_days'', map IntV payment_terms_days),
        (''invoice_accuracy'', map FloatV invoice_accuracy),
        (''response_time_hours'', map FloatV response_time_hours)])) (\<lambda>data.
     ret data)))))))))))"

section \<open>The Flask application\<close>

text \<open>
  Modelled from the spec: the Flask application \<open>app\<close> of the module \<open>main\<close>, which is
  imported by the tests and is not among the sources. The spec says that it serves
  \<open>GET /\<close>, \<open>GET /health\<close> and \<open>GET /api/v1/status\<close>, each returning a fixed JSON
  payload with no parameters, no authentication and no persisted state, and that no other
  endpoint is implemented; \<open>test_main.py\<close> names the fields of the payloads and expects
  404 for a path without a route. The entries of the \<open>features\<close> list are not given
  anywhere: the tests only say that there is at least one, so the first entry and the
  others are parameters. A route asked with another method gets 405, as Flask answers.
\<close>

datatype json = JStr string | JList "json list" | JObj "(string \<times> json) list"

record request =
  req_method :: string
  req_path :: string
  req_query :: "(string \<times> string) list"
  req_headers :: "(string \<times> string) list"
  req_body :: string

record response =
  status_code :: nat
  payload :: "(string \<times> json) list"

definition home :: response where
  "home = \<lparr>status_code = 200,
            payload = [(''message'', JStr ''Intelligence Platform API''),
                       (''status'', JStr ''running'')]\<rparr>"

definition health_check :: response where
  "health_check = \<lparr>status_code = 200,
                    payload = [(''status'', JStr ''healthy''),
                               (''service'', JStr ''intelligence-platform'')]\<rparr>"

definition api_status :: "json \<Rightarrow> json list \<Rightarrow> response" where
  "api_status feature features =
     \<lparr>status_code = 200,
      payload = [(''api_version'', JStr ''v1''),
                 (''status'', JStr ''operational''),
                 (''features'', JList (feature # features))]\<rparr>"

definition error_response :: "nat \<Rightarrow> string \<Rightarrow> response" where
  "error_response code name = \<lparr>status_code = code, payload = [(''error'', JStr name)]\<rparr>"

definition routes :: "string list" where
  "routes = [''/'', ''/health'', ''/api/v1/status'']"

definition dispatch :: "json \<Rightarrow> json list \<Rightarrow> request \<Rightarrow> response" where
  "dispatch feature features req =
     (if req_path req \<notin> set routes then error_response 404 ''Not Found''
      else if req_method req \<noteq> ''GET'' then error_response 405 ''Method Not Allowed''
      else if req_path req = ''/'' then home
      else if req_path req = ''/health'' then health_check
      else api_status feature features)"

text \<open>
  The application serves its requests one after the other. \<open>'s\<close> is whatever the process
  holds between two requests; the handlers neither read nor change it.
\<close>

definition handle :: "json \<Rightarrow> json list \<Rightarrow> 's \<Rightarrow> request \<Rightarrow> response \<times> 's" where
  "handle feature features st req = (dispatch feature features req, st)"

fun serve :: "json \<Rightarrow> json list \<Rightarrow> 's \<Rightarrow> request list \<Rightarrow> response list \<times> 's" where
  "serve feature features st [] = ([], st)"
| "serve feature features st (req # reqs) =
     (case handle feature features st req of
        (resp, st') \<Rightarrow>
          (case serve feature features st' reqs of
             (resps, st'') \<Rightarrow> (resp # resps, st'')))"

section \<open>Properties\<close>

lemma col_sum_numeric: "list_all numeric c \<Longrightarrow> col_sum c = Inr (sum_list (map number c))"
  by (induction c) (auto simp: numeric_def number_def split: cell.splits)

text \<open>
  Claim C9, as stated, fails on a frame whose \<open>review_time_hours\<close> column holds text,
  as a column read from a file without conversion does: the sum of the column is the
  concatenated text, and its product with 0.25 raises \<open>TypeError\<close>.
\<close>

theorem calculate_automation_roi_text_column_counterexample:
  "df_get [(''case_id'', [IntV 1, IntV 2]), (''review_time_hours'', [StrV ''12.5'', StrV ''8.0''])]
      ''review_time_hours'' = Inr [StrV ''12.5'', StrV ''8.0'']
   \<and> calculate_automation_roi
        [(''case_id'', [IntV 1, IntV 2]), (''review_time_hours'', [StrV ''12.5'', StrV ''8.0''])]
     = ([(''case_id'', [IntV 1, IntV 2]), (''review_time_hours'', [StrV ''12.5'', StrV ''8.0''])],
        Inl (TypeError ''unsupported operand type(s)''))"
  by (simp add: calculate_automation_roi_def df_get_def)

text \<open>
  Claim C9, amended. For every frame whose \<open>review_time_hours\<close> column holds only
  numbers, booleans and missing values, \<open>calculate_automation_roi\<close> returns the
  dictionary with \<open>manual_cost = 200 * total\<close>,
  \<open>automated_cost = 0.25 * manual_cost + 50000\<close>,
  \<open>annual_savings = manual_cost - automated_cost\<close>,
  \<open>roi_percentage = annual_savings / 50000 * 100\<close> and
  \<open>time_savings_hours = 0.75 * total\<close>, over exact arithmetic, where \<open>total\<close> is the
  sum of the column with its missing values skipped and \<open>True\<close> counted as 1; the frame
  is left unmodified.
\<close>

theorem calculate_automation_roi_equations:
  assumes "df_get df ''review_time_hours'' = Inr c" and "list_all numeric c"
  shows "\<exists>r. calculate_automation_roi df = (df, Inr r)
           \<and> map fst r = [''manual_cost'', ''automated_cost'', ''annual_savings'',
                           ''roi_percentage'', ''time_savings_hours'']
           \<and> map_of r ''manual_cost'' = Some (200 * sum_list (map number c))
           \<and> map_of r ''automated_cost''
               = Some (0.25 * (200 * sum_list (map number c)) + 50000)
           \<and> map_of r ''annual_savings''
               = Some (200 * sum_list (map number c)
                       - (0.25 * (200 * sum_list (map number c)) + 50000))
           \<and> map_of r ''roi_percentage''
               = Some ((200 * sum_list (map number c)
                        - (0.25 * (200 * sum_list (map number c)) + 50000)) / 50000 * 100)
           \<and> map_of r ''time_savings_hours'' = Some (0.75 * sum_list (map number c))"
  using assms by (simp add: calculate_automation_roi_def col_sum_numeric Let_def)

theorem calculate_automation_roi_equations_witness:
  "df_get [(''case_id'', [IntV 1, IntV 2, IntV 3, IntV 4]),
           (''review_time_hours'', [FloatV 100, NaN, IntV 300, BoolV True])]
      ''review_time_hours'' = Inr [FloatV 100, NaN, IntV 300, BoolV True]
   \<and> list_all numeric [FloatV 100, NaN, IntV 300, BoolV True]
   \<and> calculate_automation_roi
        [(''case_id'', [IntV 1, IntV 2, IntV 3, IntV 4]),
         (''review_time_hours'', [FloatV 100, NaN, IntV 300, BoolV True])]
     = ([(''case_id'', [IntV 1, IntV 2, IntV 3, IntV 4]),
         (''review_time_hours'', [FloatV 100, NaN, IntV 300, BoolV True])],
        Inr [(''manual_cost'', 80200), (''automated_cost'', 70050),
             (''annual_savings'', 10150), (''roi_percentage'', 20.3),
             (''time_savings_hours'', 300.75)])"
proof -
  have h: "df_get [(''case_id'', [IntV 1, IntV 2, IntV 3, IntV 4]),
                   (''review_time_hours'', [FloatV 100, NaN, IntV 300, BoolV True])]
             ''review_time_hours'' = Inr [FloatV 100, NaN, IntV 300, BoolV True]"
    by (simp add: df_get_def)
  have n: "list_all numeric [FloatV 100, NaN, IntV 300, BoolV True]"
    by (simp add: numeric_def)
  from calculate_automation_roi_equations [OF h n] obtain r where
    r: "calculate_automation_roi
          [(''case_id'', [IntV 1, IntV 2, IntV 3, IntV 4]),
           (''review_time_hours'', [FloatV 100, NaN, IntV 300, BoolV True])]
        = ([(''case_id'', [IntV 1, IntV 2, IntV 3, IntV 4]),
            (''review_time_hours'', [FloatV 100, NaN, IntV 300, BoolV True])], Inr r)"
    by blast
  have "calculate_automation_roi
          [(''case_id'', [IntV 1, IntV 2, IntV 3, IntV 4]),
           (''review_time_hours'', [FloatV 100, NaN, IntV 300, BoolV True])]
        = ([(''case_id'', [IntV 1, IntV 2, IntV 3, IntV 4]),
            (''review_time_hours'', [FloatV 100, NaN, IntV 300, BoolV True])],
           Inr [(''manual_cost'', 80200), (''automated_cost'', 70050),
                (''annual_savings'', 10150), (''roi_percentage'', 20.3),
                (''time_savings_hours'', 300.75)])"
    by (simp add: calculate_automation_roi_def df_get_def Let_def)
  with h n r show ?thesis by simp
qed

lemma outcome_probs_row_checked:
  assumes "complexity \<in> set complexity_levels" "0 < hours_estimated" "0 < hours_actual"
  shows "\<exists>win_prob loss_prob.
           outcome_probs_row complexity hours_estimated hours_actual
             = Inr [win_prob, loss_prob, 0.3, 0.05, 0.05]
         \<and> 0 \<le> win_prob \<and> win_prob \<le> 0.56
         \<and> loss_prob = 1 - win_prob - 0.3 \<and> 0.14 \<le> loss_prob
         \<and> list_all (\<lambda>p. 0 \<le> p) (normalize_probs [win_prob, loss_prob, 0.3, 0.05, 0.05])
         \<and> sum_list (normalize_probs [win_prob, loss_prob, 0.3, 0.05, 0.05]) = 1
         \<and> choice_check (length case_outcomes)
              (Some (normalize_probs [win_prob, loss_prob, 0.3, 0.05, 0.05])) = None"
proof -
  define ef where "ef = min 1.0 (hours_estimated / hours_actual)"
  have ef: "0 < ef" "ef \<le> 1" using assms by (simp_all add: ef_def)
  let ?d = "[(''Low'', 0.8), (''Medium'', 0.6), (''High'', 0.4), (''Very High'', 0.2::real)]"
  from assms(1) consider "complexity = ''Low''" | "complexity = ''Medium''"
    | "complexity = ''High''" | "complexity = ''Very High''"
    by (auto simp: complexity_levels_def)
  then obtain cf where cf: "dict_get ?d complexity = Inr cf" and cfb: "0 < cf" "cf \<le> 0.8"
  proof cases
    case 1
    have "dict_get ?d complexity = Inr 0.8" by (simp add: dict_get_def 1)
    then show ?thesis using that [of "0.8"] by simp
  next
    case 2
    have "dict_get ?d complexity = Inr 0.6" by (simp add: dict_get_def 2)
    then show ?thesis using that [of "0.6"] by simp
  next
    case 3
    have "dict_get ?d complexity = Inr 0.4" by (simp add: dict_get_def 3)
    then show ?thesis using that [of "0.4"] by simp
  next
    case 4
    have "dict_get ?d complexity = Inr 0.2" by (simp add: dict_get_def 4)
    then show ?thesis using that [of "0.2"] by simp
  qed
  define w where "w = cf * ef * 0.7"
  have w0: "0 \<le> w" using ef cfb by (simp add: w_def)
  have "cf * ef \<le> 0.8 * 1" using ef cfb by (intro mult_mono) simp_all
  then have w1: "w \<le> 0.56" by (simp add: w_def)
  have row: "outcome_probs_row complexity hours_estimated hours_actual = Inr [w, 1 - w - 0.3, 0.3, 0.05, 0.05]"
    unfolding outcome_probs_row_def cf by (simp add: Let_def w_def ef_def)
  have s: "sum_list [w, 1 - w - 0.3, 0.3, 0.05, 0.05] = 1.1" by simp
  have n: "normalize_probs [w, 1 - w - 0.3, 0.3, 0.05, 0.05] = [w / 1.1, (1 - w - 0.3) / 1.1, 0.3 / 1.1, 0.05 / 1.1, 0.05 / 1.1]"
    unfolding normalize_probs_def s by simp
  have pos: "list_all (\<lambda>p. 0 \<le> p) (normalize_probs [w, 1 - w - 0.3, 0.3, 0.05, 0.05])"
    unfolding n using w0 w1 by simp
  have one: "sum_list (normalize_probs [w, 1 - w - 0.3, 0.3, 0.05, 0.05]) = 1"
    unfolding n by (simp add: field_simps)
  have chk: "choice_check (length case_outcomes) (Some (normalize_probs [w, 1 - w - 0.3, 0.3, 0.05, 0.05])) = None"
    using pos one unfolding choice_check_def
    by (simp add: case_outcomes_def normalize_probs_def list_ex_iff list_all_iff not_less)
  show ?thesis
    using row w0 w1 pos one chk by (intro exI [of _ w] exI [of _ "1 - w - 0.3"]) simp
qed

lemma np_choice1_checked:
  assumes "a \<noteq> []" "choice_check (length a) p = None"
  shows "\<exists>x g'. np_choice1 np a p g = (Inr x, g')"
  using assms by (simp add: np_choice1_def split_beta)

text \<open>
  Claim C8. For a row whose complexity is one of the four levels and whose estimated and
  actual hours are positive (they are log-normal samples), the probabilities built by
  \<open>generate_legal_data\<close> are \<open>[win_prob, loss_prob, 0.3, 0.05, 0.05]\<close> with
  \<open>0 \<le> win_prob \<le> 0.56\<close> and \<open>loss_prob = 1 - win_prob - 0.3 \<ge> 0.14\<close>; after the
  normalisation all five are non-negative and sum to 1, the checks of
  \<open>np.random.choice\<close> pass and the draw returns an outcome.
\<close>

theorem outcome_probs_valid:
  assumes "complexity \<in> set complexity_levels" "0 < hours_estimated" "0 < hours_actual"
  shows "\<exists>win_prob loss_prob.
           outcome_probs_row complexity hours_estimated hours_actual
             = Inr [win_prob, loss_prob, 0.3, 0.05, 0.05]
         \<and> 0 \<le> win_prob \<and> win_prob \<le> 0.56
         \<and> loss_prob = 1 - win_prob - 0.3 \<and> 0.14 \<le> loss_prob
         \<and> list_all (\<lambda>p. 0 \<le> p) (normalize_probs [win_prob, loss_prob, 0.3, 0.05, 0.05])
         \<and> sum_list (normalize_probs [win_prob, loss_prob, 0.3, 0.05, 0.05]) = 1
         \<and> choice_check (length case_outcomes)
              (Some (normalize_probs [win_prob, loss_prob, 0.3, 0.05, 0.05])) = None
         \<and> (\<exists>outcome g'.
               np_choice1 np case_outcomes
                 (Some (normalize_probs [win_prob, loss_prob, 0.3, 0.05, 0.05])) g
               = (Inr outcome, g'))"
proof -
  from outcome_probs_row_checked [OF assms] obtain w l where
    row: "outcome_probs_row complexity hours_estimated hours_actual = Inr [w, l, 0.3, 0.05, 0.05]"
    and bounds: "0 \<le> w" "w \<le> 0.56" "l = 1 - w - 0.3" "0.14 \<le> l"
    and valid: "list_all (\<lambda>p. 0 \<le> p) (normalize_probs [w, l, 0.3, 0.05, 0.05])"
      "sum_list (normalize_probs [w, l, 0.3, 0.05, 0.05]) = 1"
    and chk: "choice_check (length case_outcomes)
                (Some (normalize_probs [w, l, 0.3, 0.05, 0.05])) = None"
    by blast
  have "case_outcomes \<noteq> []" by (simp add: case_outcomes_def)
  from np_choice1_checked [OF this chk] have draw:
    "\<exists>outcome g'. np_choice1 np case_outcomes
        (Some (normalize_probs [w, l, 0.3, 0.05, 0.05])) g = (Inr outcome, g')" .
  show ?thesis
    using row bounds valid chk draw by (intro exI [of _ w] exI [of _ l] conjI)
qed

theorem outcome_probs_valid_witness:
  "''Low'' \<in> set complexity_levels \<and> (0::real) < 100 \<and> (0::real) < 200
   \<and> outcome_probs_row ''Low'' 100 200 = Inr [0.28, 0.42, 0.3, 0.05, 0.05]
   \<and> choice_check (length case_outcomes)
         (Some (normalize_probs [0.28, 0.42, 0.3, 0.05, 0.05])) = None
   \<and> np_choice1 counter_random case_outcomes
         (Some (normalize_probs [0.28, 0.42, 0.3, 0.05, 0.05])) 42 = (Inr ''Settled'', 43)"
proof -
  have h1: "''Low'' \<in> set complexity_levels" by (simp add: complexity_levels_def)
  have h2: "(0::real) < 100" and h3: "(0::real) < 200" by simp_all
  from outcome_probs_valid [OF h1 h2 h3, where np = counter_random and g = 42] obtain w l where
    row: "outcome_probs_row ''Low'' 100 200 = Inr [w, l, 0.3, 0.05, 0.05]"
    and chk: "choice_check (length case_outcomes) (Some (normalize_probs [w, l, 0.3, 0.05, 0.05])) = None"
    by blast
  have row': "outcome_probs_row ''Low'' 100 200 = Inr [0.28, 0.42, 0.3, 0.05, 0.05]"
    by (simp add: outcome_probs_row_def dict_get_def Let_def)
  from row row' have "w = 0.28" "l = 0.42" by simp_all
  with chk have chk': "choice_check (length case_outcomes)
      (Some (normalize_probs [0.28, 0.42, 0.3, 0.05, 0.05])) = None" by simp
  have "np_choice1 counter_random case_outcomes
          (Some (normalize_probs [0.28, 0.42, 0.3, 0.05, 0.05])) 42 = (Inr ''Settled'', 43)"
    unfolding np_choice1_def chk' by (simp add: case_outcomes_def counter_random_def)
  with chk' h1 row' show ?thesis by simp
qed

lemma post_rbind:
  assumes "post m g (\<lambda>x. \<forall>g'. post (k x) g' Q)"
  shows "post (rbind m k) g Q"
  using assms by (auto simp: post_def rbind_def split: prod.splits sum.splits)

lemma post_ret: "Q x \<Longrightarrow> post (ret x) g Q"
  by (simp add: post_def ret_def)

lemma post_lift: "r = Inr x \<Longrightarrow> Q x \<Longrightarrow> post (lift r) g Q"
  by (simp add: post_def lift_def)

lemma draws_length: "length (fst (draws f n g)) = n"
  by (induction n arbitrary: g) (simp_all add: split_beta)

lemma draws_all: "(\<And>g. P (fst (f g))) \<Longrightarrow> list_all P (fst (draws f n g))"
proof (induction n arbitrary: g)
  case 0
  then show ?case by simp
next
  case (Suc n)
  obtain x g' where fg: "f g = (x, g')" by (cases "f g")
  have "P x" using Suc.prems [of g] fg by simp
  moreover have "list_all P (fst (draws f n g'))" using Suc by blast
  ultimately show ?case using fg by (simp add: split_beta)
qed

lemma post_sized:
  assumes "0 \<le> n" "\<And>g. P (fst (f g))"
    and "\<And>xs. length xs = nat n \<Longrightarrow> list_all P xs \<Longrightarrow> Q xs"
  shows "post (sized f n) g Q"
proof -
  have "Q (fst (draws f (nat n) g))"
    by (rule assms(3)) (simp_all add: draws_length draws_all assms(2))
  then show ?thesis using assms(1) by (simp add: post_def sized_def split_beta)
qed

lemma post_rbind_sized:
  assumes "0 \<le> n"
    and "\<And>xs g'. length xs = nat n \<Longrightarrow> post (k xs) g' Q"
  shows "post (rbind (sized f n) k) g Q"
  by (rule post_rbind, rule post_sized [where P = "\<lambda>x. True"]) (simp_all add: assms)

lemma post_rbind_lognormal:
  assumes "sampler_ok np" "0 \<le> n"
    and "\<And>xs g'. length xs = nat n \<Longrightarrow> list_all (\<lambda>x. 0 < x) xs \<Longrightarrow> post (k xs) g' Q"
  shows "post (rbind (sized (draw_lognormal np mu sigma) n) k) g Q"
proof (rule post_rbind, rule post_sized [where P = "\<lambda>x. 0 < x"])
  show "0 \<le> n" by fact
  show "0 < fst (draw_lognormal np mu sigma g)" for g
    using assms(1) by (simp add: sampler_ok_def)
  show "\<forall>g'. post (k xs) g' Q" if "length xs = nat n" "list_all (\<lambda>x. 0 < x) xs" for xs
    using assms(3) that by blast
qed

lemma post_rbind_choice:
  assumes "sampler_ok np" "0 \<le> n" "a \<noteq> []"
    and "\<And>xs g'. length xs = nat n \<Longrightarrow> list_all (\<lambda>x. x \<in> set a) xs \<Longrightarrow> post (k xs) g' Q"
  shows "post (rbind (np_choice np a n None) k) g Q"
proof (rule post_rbind)
  let ?f = "choice_index np (length a) None"
  let ?idx = "fst (draws ?f (nat n) g)"
  have lt: "list_all (\<lambda>i. i < length a) ?idx"
    by (rule draws_all) (use assms(1,3) in \<open>simp add: sampler_ok_def\<close>)
  have eq: "fst (np_choice np a n None g) = Inr (map (\<lambda>i. a ! i) ?idx)"
    using assms(2,3) by (simp add: np_choice_def choice_check_def sized_def split_beta)
  have "list_all (\<lambda>x. x \<in> set a) (map (\<lambda>i. a ! i) ?idx)"
    using lt by (simp add: list_all_iff)
  then have "\<forall>g'. post (k (map (\<lambda>i. a ! i) ?idx)) g' Q"
    using assms(4) by (simp add: draws_length)
  then show "post (np_choice np a n None) g (\<lambda>x. \<forall>g'. post (k x) g' Q)"
    by (simp add: post_def eq)
qed

lemma post_rbind_lift:
  assumes "r = Inr x" "\<And>g'. post (k x) g' Q"
  shows "post (rbind (lift r) k) g Q"
  by (rule post_rbind, rule post_lift [OF assms(1)]) (simp add: assms(2))


lemma post_seq:
  assumes "post m g P" "\<And>x g'. P x \<Longrightarrow> post (k x) g' Q"
  shows "post (rbind m k) g Q"
proof -
  obtain r g' where mg: "m g = (r, g')" by (cases "m g")
  with assms(1) obtain x where x: "r = Inr x" "P x" by (cases r) (auto simp: post_def)
  from assms(2) [OF x(2), of g'] show ?thesis by (simp add: post_def rbind_def mg x(1))
qed

lemma post_rbind_seed:
  assumes "\<And>g'. post (k ()) g' Q"
  shows "post (rbind (np_seed np s) k) g Q"
  using assms by (simp add: post_def rbind_def np_seed_def)

lemma rbind_lift_Inr: "rbind (lift (Inr x)) k = k x"
  by (rule ext) (simp add: rbind_def lift_def)

lemma post_ret_iff: "post (ret x) g Q = Q x"
  by (simp add: post_def ret_def)

lemma post_rbind_lift_ex:
  assumes "\<exists>x. r = Inr x \<and> P x" "\<And>x g'. P x \<Longrightarrow> post (k x) g' Q"
  shows "post (rbind (lift r) k) g Q"
  using assms by (auto simp: post_def rbind_def lift_def)

lemma outcome_probs_loop_ok:
  assumes "list_all (\<lambda>(c, e, a). c \<in> set complexity_levels \<and> 0 < e \<and> 0 < a) rows"
  shows "\<exists>ps. outcome_probs_loop rows = Inr ps \<and> length ps = length rows
            \<and> list_all (\<lambda>probs. choice_check (length case_outcomes)
                              (Some (normalize_probs probs)) = None) ps"
  using assms
proof (induction rows)
  case Nil
  then show ?case by simp
next
  case (Cons r rows)
  obtain c e a where r: "r = (c, e, a)" by (cases r)
  from Cons.prems r obtain probs where
    p: "outcome_probs_row c e a = Inr probs"
       "choice_check (length case_outcomes) (Some (normalize_probs probs)) = None"
    using outcome_probs_row_checked [of c e a] by auto
  from Cons obtain ps where
    ps: "outcome_probs_loop rows = Inr ps" "length ps = length rows"
        "list_all (\<lambda>probs. choice_check (length case_outcomes)
                     (Some (normalize_probs probs)) = None) ps"
    by auto
  show ?case using p ps r by simp
qed

lemma outcomes_loop_ok:
  assumes "list_all (\<lambda>probs. choice_check (length case_outcomes)
                       (Some (normalize_probs probs)) = None) ps"
  shows "post (outcomes_loop np ps) g (\<lambda>outcomes. length outcomes = length ps)"
  using assms
proof (induction ps arbitrary: g)
  case Nil
  then show ?case by (simp add: post_def)
next
  case (Cons probs ps)
  have chk: "choice_check (length case_outcomes) (Some (normalize_probs probs)) = None"
    using Cons.prems by simp
  obtain i g' where ci: "choice_index np (length case_outcomes) (Some (normalize_probs probs)) g = (i, g')"
    by (cases "choice_index np (length case_outcomes) (Some (normalize_probs probs)) g")
  have c1: "np_choice1 np case_outcomes (Some (normalize_probs probs)) g = (Inr (case_outcomes ! i), g')"
    using chk ci by (simp add: np_choice1_def case_outcomes_def)
  have "post (outcomes_loop np ps) g' (\<lambda>outcomes. length outcomes = length ps)"
    using Cons by simp
  then show ?case using c1
    by (auto simp: post_def split: prod.splits sum.splits)
qed

lemma zip_rows_ok:
  assumes "list_all (\<lambda>c. c \<in> set complexity_levels) cs"
    "list_all (\<lambda>x. 0 < x) es" "list_all (\<lambda>x. 0 < x) as"
  shows "list_all (\<lambda>(c, e, a). c \<in> set complexity_levels \<and> 0 < e \<and> 0 < (a::real))
           (zip cs (zip es as))"
proof -
  have "c \<in> set complexity_levels \<and> 0 < e \<and> 0 < a"
    if "(c, e, a) \<in> set (zip cs (zip es as))" for c e a
  proof -
    from that have c: "c \<in> set cs" by (rule set_zip_leftD)
    from that have "(e, a) \<in> set (zip es as)" by (rule set_zip_rightD)
    then have "e \<in> set es" "a \<in> set as"
      by (auto dest: set_zip_leftD set_zip_rightD)
    with c assms show ?thesis by (simp add: list_all_iff)
  qed
  then show ?thesis by (auto simp: list_all_iff)
qed

lemma generate_legal_data_post:
  assumes ok: "sampler_ok np" and n: "0 \<le> n_cases"
  shows "post (generate_legal_data np n_cases) g0
           (\<lambda>data. nrows data = nat n_cases
                 \<and> df_get data ''case_id'' = Inr (map IntV [1..n_cases])
                 \<and> list_all (\<lambda>c. length (snd c) = nat n_cases) data)"
  unfolding generate_legal_data_def
  apply (rule post_rbind_seed)
  apply (rule post_rbind_choice [OF ok n], simp)
  apply (rule post_rbind_choice [OF ok n], simp)
  apply (rule post_rbind_choice [OF ok n], simp add: complexity_levels_def)
  apply (rule post_rbind_choice [OF ok n], simp)
  apply (rule post_rbind_lognormal [OF ok n])
  apply (rule post_rbind_lognormal [OF ok n])
  apply (rule post_rbind_lognormal [OF ok n])
  apply (rule post_rbind_sized [OF n])
  apply (rule post_rbind_sized [OF n])
  apply (rule post_rbind_sized [OF n])
  apply (rule post_rbind_lognormal [OF ok n])
  apply (rule post_rbind_lognormal [OF ok n])
  apply (rule post_rbind_sized [OF n])
  apply (rule post_rbind_sized [OF n])
  apply (rule post_rbind_sized [OF n])
  apply (rule post_rbind_sized [OF n])
  apply (rule post_rbind_lift)
   apply (simp add: DataFrame_def nrows_def)
  apply (rule post_rbind_lift_ex)
   apply (rule outcome_probs_loop_ok)
   apply (rule zip_rows_ok; simp)
  apply (rule post_seq)
   apply (rule outcomes_loop_ok, simp)
  apply (simp only: Let_def)
  apply (subst df_set_def)
  apply (simp add: nrows_def rbind_lift_Inr)
  apply (subst df_set_def)
  apply (simp add: nrows_def rbind_lift_Inr)
  apply (subst df_set_def)
  apply (simp add: nrows_def rbind_lift_Inr)
  apply (subst df_set_def)
  apply (simp add: nrows_def rbind_lift_Inr)
  apply (rule post_rbind_sized [OF n])
  apply (subst df_set_def)
  apply (simp add: nrows_def rbind_lift_Inr post_ret_iff)
  apply (simp add: df_get_def)
  done

text \<open>
  Claim C7. With a sampler that behaves as documented and \<open>n_cases \<ge> 1\<close>,
  \<open>generate_legal_data(n_cases)\<close> returns a frame with exactly \<open>n_cases\<close> rows, every
  column of that length, whose \<open>case_id\<close> column is \<open>1, 2, ..., n_cases\<close>. The only
  effect of the call is on the state of the generator.
\<close>

theorem generate_legal_data_rows:
  assumes "sampler_ok np" "1 \<le> n_cases"
  shows "\<exists>data g'. generate_legal_data np n_cases g0 = (Inr data, g')
           \<and> nrows data = nat n_cases
           \<and> df_get data ''case_id'' = Inr (map IntV [1..n_cases])
           \<and> list_all (\<lambda>c. length (snd c) = nat n_cases) data"
proof -
  from assms(2) have n: "0 \<le> n_cases" by simp
  obtain r g' where run: "generate_legal_data np n_cases g0 = (r, g')"
    by (cases "generate_legal_data np n_cases g0")
  from generate_legal_data_post [OF assms(1) n, of g0] run show ?thesis
    by (cases r) (simp_all add: post_def)
qed

theorem generate_legal_data_rows_witness:
  "sampler_ok counter_random \<and> (1::int) \<le> 2
   \<and> (\<exists>data g'. generate_legal_data counter_random 2 7 = (Inr data, g')
         \<and> nrows data = 2
         \<and> df_get data ''case_id'' = Inr [IntV 1, IntV 2]
         \<and> list_all (\<lambda>c. length (snd c) = 2) data)"
proof -
  have ok: "sampler_ok counter_random"
    by (simp add: sampler_ok_def counter_random_def)
  have n: "(1::int) \<le> 2" by simp
  have "[1..2::int] = [1, 2]" by (simp add: upto.simps)
  with generate_legal_data_rows [OF ok n, of 7] ok show ?thesis by simp
qed

lemma rbind_seed: "rbind (np_seed np s) k g = k () (seed_state np s)"
  by (simp add: rbind_def np_seed_def)

lemma contracts_at_2019_06_01:
  "fst (generate_contracts_data counter_random (Timestamp 2019 6 1) 1 7) = Inr
      [(''contract_id'', [StrV ''CONTRACT-0000'']),
       (''contract_type'', [StrV ''Employment Contract'']),
       (''counterparty'', [StrV ''Counterparty_44'']),
       (''start_date'', [DateV 1546300800000000000]),
       (''contract_value'', [FloatV 3]),
       (''duration_months'', [IntV 24]),
       (''end_date'', [DateV 1608508800000000000]),
       (''risk_score'', [FloatV 5]),
       (''performance_score'', [FloatV 5]),
       (''status'', [StrV ''Active'']),
       (''renewal_required'', [BoolV False]),
       (''compliance_issues'', [BoolV True]),
       (''auto_renewal'', [BoolV False])]"
  by code_simp

lemma contracts_at_2026_11_04:
  "fst (generate_contracts_data counter_random (Timestamp 2026 11 4) 1 7) = Inr
      [(''contract_id'', [StrV ''CONTRACT-0000'']),
       (''contract_type'', [StrV ''Employment Contract'']),
       (''counterparty'', [StrV ''Counterparty_44'']),
       (''start_date'', [DateV 1546300800000000000]),
       (''contract_value'', [FloatV 3]),
       (''duration_months'', [IntV 24]),
       (''end_date'', [DateV 1608508800000000000]),
       (''risk_score'', [FloatV 5]),
       (''performance_score'', [FloatV 5]),
       (''status'', [StrV ''Expired'']),
       (''renewal_required'', [BoolV True]),
       (''compliance_issues'', [BoolV True]),
       (''auto_renewal'', [BoolV False])]"
  by code_simp

text \<open>
  Claim C5, as stated, fails for \<open>generate_contracts_data\<close>: the same call made on
  1 June 2019 and on 4 November 2026 returns two different frames, because \<open>status\<close> and
  \<open>renewal_required\<close> compare the end dates with \<open>pd.Timestamp.now()\<close>. The one contract
  starts on 1 January 2019 and runs for at most 60 months of 30 days, so whatever is drawn
  it is active at the first date and expired at the second.
\<close>

theorem generate_contracts_data_clock_counterexample:
  "fst (generate_contracts_data counter_random (Timestamp 2019 6 1) 1 7)
   \<noteq> fst (generate_contracts_data counter_random (Timestamp 2026 11 4) 1 7)"
  unfolding contracts_at_2019_06_01 contracts_at_2026_11_04 by simp

text \<open>
  Claim C5, amended. Every generator starts by reseeding the global generator, so its
  result does not depend on the state it finds: two calls with equal arguments return
  identical frames (and leave the generator in the same state), for
  \<open>generate_contracts_data\<close> when the two calls also read the same time.
\<close>

theorem generators_deterministic:
  "generate_legal_data np n g1 = generate_legal_data np n g2
   \<and> generate_legal_cases_data np n g1 = generate_legal_cases_data np n g2
   \<and> generate_contracts_data np now n g1 = generate_contracts_data np now n g2
   \<and> generate_compliance_data np g1 = generate_compliance_data np g2
   \<and> generate_vendor_data np n g1 = generate_vendor_data np n g2"
proof (intro conjI)
  show "generate_legal_data np n g1 = generate_legal_data np n g2"
    by (simp only: generate_legal_data_def rbind_seed)
  show "generate_legal_cases_data np n g1 = generate_legal_cases_data np n g2"
    by (simp only: generate_legal_cases_data_def rbind_seed)
  show "generate_contracts_data np now n g1 = generate_contracts_data np now n g2"
    by (simp only: generate_contracts_data_def rbind_seed)
  show "generate_compliance_data np g1 = generate_compliance_data np g2"
    by (simp only: generate_compliance_data_def rbind_seed)
  show "generate_vendor_data np n g1 = generate_vendor_data np n g2"
    by (simp only: generate_vendor_data_def rbind_seed)
qed

lemma ppost_seq:
  assumes "ppost m g P" "\<And>x g'. P x \<Longrightarrow> ppost (k x) g' Q"
  shows "ppost (rbind m k) g Q"
proof -
  obtain r g' where mg: "m g = (r, g')" by (cases "m g")
  show ?thesis
  proof (cases r)
    case (Inl e)
    then show ?thesis by (simp add: ppost_def rbind_def mg)
  next
    case (Inr x)
    with assms(1) mg have "P x" by (simp add: ppost_def)
    from assms(2) [OF this, of g'] show ?thesis by (simp add: ppost_def rbind_def mg Inr)
  qed
qed

lemma ppost_rbind_any:
  assumes "\<And>x g'. ppost (k x) g' Q"
  shows "ppost (rbind m k) g Q"
proof (rule ppost_seq [where P = "\<lambda>x. True"])
  show "ppost m g (\<lambda>x. True)" by (simp add: ppost_def split: sum.splits)
  show "ppost (k x) g' Q" for x g' by (rule assms)
qed

lemma ppost_rbind_lift:
  assumes "\<And>x g'. r = Inr x \<Longrightarrow> ppost (k x) g' Q"
  shows "ppost (rbind (lift r) k) g Q"
proof (rule ppost_seq [where P = "\<lambda>x. r = Inr x"])
  show "ppost (lift r) g (\<lambda>x. r = Inr x)" by (simp add: ppost_def lift_def split: sum.splits)
  show "ppost (k x) g' Q" if "r = Inr x" for x g' using that by (rule assms)
qed

lemma ppost_ret_iff: "ppost (ret x) g Q = Q x"
  by (simp add: ppost_def ret_def)

lemma DataFrame_Inr:
  "DataFrame cols = Inr x \<longleftrightarrow> x = cols \<and> list_all (\<lambda>c. length (snd c) = nrows cols) cols"
  by (auto simp: DataFrame_def)

lemma df_set_Inr:
  "df_set df col v = Inr x \<longleftrightarrow> x = AList.update col v df \<and> length v = nrows df"
  by (auto simp: df_set_def)

lemma length_scatter: "length (scatter old sel vs) = length old"
  by (induction old sel vs rule: scatter.induct) (auto split: list.splits)

lemma scatter_NaN:
  assumes "list_all (\<lambda>c. c = NaN) old" "i < length old" "scatter old sel vs ! i \<noteq> NaN"
  shows "i < length sel \<and> sel ! i"
  using assms
proof (induction old sel vs arbitrary: i rule: scatter.induct)
  case (1 c cs m ms vs)
  show ?case
  proof (cases i)
    case 0
    with "1.prems" show ?thesis by (auto split: if_splits list.splits)
  next
    case (Suc j)
    with "1.prems" "1.IH" show ?thesis
      by (auto split: if_splits list.splits)
  qed
qed (simp_all add: list_all_length)


lemma ppost_rbind_get:
  assumes "\<And>c g'. map_of df col = Some c \<Longrightarrow> ppost (k c) g' Q"
  shows "ppost (rbind (lift (df_get df col)) k) g Q"
  by (rule ppost_rbind_lift) (auto simp: df_get_def intro: assms split: option.splits)

lemma loc_set_new_Inr:
  assumes "map_of df col = None"
  shows "loc_set df sel col vs = Inr x \<longleftrightarrow>
           x = AList.update col (scatter (replicate (nrows df) NaN) sel vs) df
           \<and> mask_sum sel = length vs"
  using assms by (auto simp: loc_set_def)

lemma scatter_new_selected:
  assumes "i < n" "scatter (replicate n NaN) (map P xs) vs ! i \<noteq> NaN"
  shows "i < length xs \<and> P (xs ! i)"
proof -
  have "list_all (\<lambda>c. c = NaN) (replicate n NaN)" by (simp add: list_all_iff)
  from scatter_NaN [OF this _ assms(2)] assms(1)
  have "i < length (map P xs) \<and> map P xs ! i" by simp
  then show ?thesis by auto
qed

lemma ppost_rbind_DataFrame:
  assumes "\<And>g'. list_all (\<lambda>c. length (snd c) = nrows cols) cols \<Longrightarrow> ppost (k cols) g' Q"
  shows "ppost (rbind (lift (DataFrame cols)) k) g Q"
  by (rule ppost_rbind_lift) (simp add: DataFrame_Inr assms)

lemma ppost_rbind_df_set:
  assumes "AList.update col v df = df'" "\<And>g'. ppost (k df') g' Q"
  shows "ppost (rbind (lift (df_set df col v)) k) g Q"
  by (rule ppost_rbind_lift) (use assms in \<open>auto simp: df_set_Inr\<close>)

lemma ppost_rbind_df_get:
  assumes "map_of df col = Some c" "\<And>g'. ppost (k c) g' Q"
  shows "ppost (rbind (lift (df_get df col)) k) g Q"
proof (rule ppost_rbind_lift)
  show "ppost (k x) g' Q" if "df_get df col = Inr x" for x g'
  proof -
    from that assms(1) have "x = c" by (simp add: df_get_def)
    with assms(2) show ?thesis by simp
  qed
qed

lemma ppost_rbind_loc_set_new:
  assumes "map_of df col = None" "nrows df = n"
    and "AList.update col (scatter (replicate n NaN) sel vs) df = df'"
    and "\<And>g'. ppost (k df') g' Q"
  shows "ppost (rbind (lift (loc_set df sel col vs)) k) g Q"
  by (rule ppost_rbind_lift) (use assms in \<open>auto simp: loc_set_new_Inr\<close>)

lemma legal_cases_invariant:
  "ppost (generate_legal_cases_data np n_cases) g
     (\<lambda>data. \<exists>status outcome settlement_amount.
        map_of data ''status'' = Some status
      \<and> map_of data ''outcome'' = Some outcome
      \<and> map_of data ''settlement_amount'' = Some settlement_amount
      \<and> length status = nrows data \<and> length outcome = nrows data
      \<and> length settlement_amount = nrows data
      \<and> (\<forall>i<nrows data.
            (settlement_amount ! i \<noteq> NaN \<longrightarrow> outcome ! i = StrV ''Settled'')
          \<and> (outcome ! i \<noteq> NaN \<longrightarrow> status ! i = StrV ''Closed'')))"
  unfolding generate_legal_cases_data_def
  apply (rule ppost_rbind_any)
  apply (rule ppost_rbind_any)
  apply (rule ppost_rbind_any)
  apply (rule ppost_rbind_any)
  apply (rule ppost_rbind_any)
  apply (rule ppost_rbind_any)
  apply (rule ppost_rbind_any)
  apply (rule ppost_rbind_any)
  apply (rule ppost_rbind_any)
  apply (rule ppost_rbind_DataFrame)
  apply (rule ppost_rbind_any)
  apply (rule ppost_rbind_any)
  apply (rule ppost_rbind_df_set, simp)
  apply (rule ppost_rbind_any)
  apply (simp only: Let_def)
  apply (rule ppost_rbind_df_set, simp)
  apply (rule ppost_rbind_any)
  apply (rule ppost_rbind_df_set, simp)
  apply (rule ppost_rbind_df_get, simp)
  apply (rule ppost_rbind_any)
  apply (rule ppost_rbind_loc_set_new, simp, simp add: nrows_def, simp)
  apply (rule ppost_rbind_df_get, simp)
  apply (rule ppost_rbind_any)
  apply (rule ppost_rbind_loc_set_new, simp, simp add: nrows_def, simp)
  apply (simp only: ppost_ret_iff)
  apply (simp add: nrows_def length_scatter)
  apply (auto dest: scatter_new_selected)
  done

text \<open>
  Claim C10. In every frame returned by \<open>generate_legal_cases_data\<close>, the columns
  \<open>status\<close>, \<open>outcome\<close> and \<open>settlement_amount\<close> exist, are as long as the frame, and row
  by row a non-null \<open>settlement_amount\<close> occurs only where \<open>outcome\<close> is \<open>'Settled'\<close> and
  a non-null \<open>outcome\<close> only where \<open>status\<close> is \<open>'Closed'\<close>.
\<close>

theorem legal_cases_outcome_invariants:
  assumes "generate_legal_cases_data np n_cases g = (Inr data, g')"
  shows "\<exists>status outcome settlement_amount.
           df_get data ''status'' = Inr status
         \<and> df_get data ''outcome'' = Inr outcome
         \<and> df_get data ''settlement_amount'' = Inr settlement_amount
         \<and> length status = nrows data \<and> length outcome = nrows data
         \<and> length settlement_amount = nrows data
         \<and> (\<forall>i<nrows data.
               (settlement_amount ! i \<noteq> NaN \<longrightarrow> outcome ! i = StrV ''Settled'')
             \<and> (outcome ! i \<noteq> NaN \<longrightarrow> status ! i = StrV ''Closed''))"
proof -
  from legal_cases_invariant [of np n_cases g] assms
  obtain status outcome settlement_amount where
    cols: "map_of data ''status'' = Some status" "map_of data ''outcome'' = Some outcome"
      "map_of data ''settlement_amount'' = Some settlement_amount"
    and len: "length status = nrows data" "length outcome = nrows data"
      "length settlement_amount = nrows data"
    and inv: "\<forall>i<nrows data.
                (settlement_amount ! i \<noteq> NaN \<longrightarrow> outcome ! i = StrV ''Settled'')
              \<and> (outcome ! i \<noteq> NaN \<longrightarrow> status ! i = StrV ''Closed'')"
    by (auto simp: ppost_def)
  from cols have "df_get data ''status'' = Inr status" "df_get data ''outcome'' = Inr outcome"
    "df_get data ''settlement_amount'' = Inr settlement_amount"
    by (simp_all add: df_get_def)
  with len inv show ?thesis by blast
qed

theorem legal_cases_outcome_invariants_witness:
  "\<exists>data. generate_legal_cases_data counter_random 5 0 = (Inr data, 94)
     \<and> nrows data = 5
     \<and> df_get data ''status''
         = Inr [StrV ''Closed'', StrV ''On Hold'', StrV ''Active'', StrV ''Pending'',
                StrV ''Settlement'']
     \<and> df_get data ''outcome'' = Inr [StrV ''Settled'', NaN, NaN, NaN, NaN]
     \<and> df_get data ''settlement_amount'' = Inr [FloatV (3 / 10), NaN, NaN, NaN, NaN]"
proof -
  let ?data = "[(''case_id'',
        [StrV ''CASE-0000'', StrV ''CASE-0001'', StrV ''CASE-0002'',
         StrV ''CASE-0003'', StrV ''CASE-0004'']),
       (''case_name'',
        [StrV ''Legal Matter 1'', StrV ''Legal Matter 2'',
         StrV ''Legal Matter 3'', StrV ''Legal Matter 4'',
         StrV ''Legal Matter 5'']),
       (''practice_area'',
        [StrV ''Employment'', StrV ''IP'', StrV ''Regulatory'',
         StrV ''Compliance'', StrV ''Real Estate'']),
       (''case_type'',
        [StrV ''Tax Appeal'', StrV ''Civil Litigation'',
         StrV ''Criminal Defense'', StrV ''Contract Dispute'',
         StrV ''Employment Dispute'']),
       (''status'',
        [StrV ''Closed'', StrV ''On Hold'', StrV ''Active'',
         StrV ''Pending'', StrV ''Settlement'']),
       (''risk_level'',
        [StrV ''Medium'', StrV ''High'', StrV ''Critical'', StrV ''Low'',
         StrV ''Medium'']),
       (''filing_date'',
        [DateV 1577836800000000000, DateV 1617278400000000000,
         DateV 1656720000000000000, DateV 1696161600000000000,
         DateV 1735603200000000000]),
       (''assigned_attorney'',
        [StrV ''Attorney_1'', StrV ''Attorney_1'', StrV ''Attorney_1'',
         StrV ''Attorney_1'', StrV ''Attorney_1'']),
       (''client'',
        [StrV ''Client_1'', StrV ''Client_1'', StrV ''Client_1'',
         StrV ''Client_1'', StrV ''Client_1'']),
       (''opposing_counsel'',
        [StrV ''Opposing_Firm_1'', StrV ''Opposing_Firm_1'',
         StrV ''Opposing_Firm_1'', StrV ''Opposing_Firm_1'',
         StrV ''Opposing_Firm_1'']),
       (''potential_exposure'',
        [FloatV 3, FloatV 2, FloatV 10, FloatV (3 / 2), FloatV 1]),
       (''legal_fees_spent'',
        [FloatV (3 / 20), FloatV (1 / 10), FloatV (1 / 2), FloatV (3 / 40),
         FloatV (1 / 20)]),
       (''estimated_total_cost'',
        [FloatV (9 / 50), FloatV (3 / 25), FloatV (3 / 5), FloatV (9 / 100),
         FloatV (3 / 50)]),
       (''outcome'', [StrV ''Settled'', NaN, NaN, NaN, NaN]),
       (''settlement_amount'', [FloatV (3 / 10), NaN, NaN, NaN, NaN])]"
  have run: "generate_legal_cases_data counter_random 5 0 = (Inr ?data, 94)"
    by code_simp
  from legal_cases_outcome_invariants [OF run] obtain status outcome settlement_amount where
    cols: "df_get ?data ''status'' = Inr status" "df_get ?data ''outcome'' = Inr outcome"
      "df_get ?data ''settlement_amount'' = Inr settlement_amount"
    and len: "length status = nrows ?data"
    by blast
  from cols have
    "status = [StrV ''Closed'', StrV ''On Hold'', StrV ''Active'', StrV ''Pending'',
               StrV ''Settlement'']"
    "outcome = [StrV ''Settled'', NaN, NaN, NaN, NaN]"
    "settlement_amount = [FloatV (3 / 10), NaN, NaN, NaN, NaN]"
    by (simp_all add: df_get_def)
  with cols len have
    "nrows ?data = 5
     \<and> df_get ?data ''status''
         = Inr [StrV ''Closed'', StrV ''On Hold'', StrV ''Active'', StrV ''Pending'',
                StrV ''Settlement'']
     \<and> df_get ?data ''outcome'' = Inr [StrV ''Settled'', NaN, NaN, NaN, NaN]
     \<and> df_get ?data ''settlement_amount'' = Inr [FloatV (3 / 10), NaN, NaN, NaN, NaN]"
    by simp
  with run show ?thesis by blast
qed

text \<open>
  Claim C3. Whatever the query parameters, headers and body of the request, \<open>GET /\<close>
  returns 200 with \<open>message = 'Intelligence Platform API'\<close> and \<open>status = 'running'\<close>,
  \<open>GET /health\<close> returns 200 with \<open>status = 'healthy'\<close> and
  \<open>service = 'intelligence-platform'\<close>, and \<open>GET /api/v1/status\<close> returns 200 with
  \<open>api_version = 'v1'\<close>, \<open>status = 'operational'\<close> and a non-empty \<open>features\<close> list.
\<close>

theorem working_endpoints:
  "(let r = dispatch feature features
              \<lparr>req_method = ''GET'', req_path = ''/'', req_query = q, req_headers = h,
               req_body = b\<rparr>
    in status_code r = 200
       \<and> map_of (payload r) ''message'' = Some (JStr ''Intelligence Platform API'')
       \<and> map_of (payload r) ''status'' = Some (JStr ''running''))
   \<and> (let r = dispatch feature features
                \<lparr>req_method = ''GET'', req_path = ''/health'', req_query = q, req_headers = h,
                 req_body = b\<rparr>
      in status_code r = 200
         \<and> map_of (payload r) ''status'' = Some (JStr ''healthy'')
         \<and> map_of (payload r) ''service'' = Some (JStr ''intelligence-platform''))
   \<and> (let r = dispatch feature features
                \<lparr>req_method = ''GET'', req_path = ''/api/v1/status'', req_query = q,
                 req_headers = h, req_body = b\<rparr>
      in status_code r = 200
         \<and> map_of (payload r) ''api_version'' = Some (JStr ''v1'')
         \<and> map_of (payload r) ''status'' = Some (JStr ''operational'')
         \<and> (\<exists>fs. map_of (payload r) ''features'' = Some (JList fs) \<and> fs \<noteq> []))"
  by (simp add: dispatch_def routes_def home_def health_check_def api_status_def)

text \<open>
  Claim C4. A request whose path is none of the three routes gets an error status in
  \<open>{404, 501}\<close>, never a 2xx status, whatever its method; \<open>GET /invalid-endpoint\<close>
  gets 404.
\<close>

theorem other_paths_not_found:
  assumes "req_path req \<notin> set routes"
  shows "status_code (dispatch feature features req) \<in> {404, 501}
         \<and> \<not> (200 \<le> status_code (dispatch feature features req)
               \<and> status_code (dispatch feature features req) < 300)
         \<and> status_code (dispatch feature features (req\<lparr>req_method := ''GET'',
               req_path := ''/invalid-endpoint''\<rparr>)) = 404"
  using assms by (simp add: dispatch_def routes_def error_response_def)

theorem other_paths_not_found_witness:
  "req_path \<lparr>req_method = ''POST'', req_path = ''/api/v1/nlp/summarize'', req_query = [],
              req_headers = [(''Content-Type'', ''application/json'')],
              req_body = ''{}''\<rparr> \<notin> set routes
   \<and> status_code (dispatch (JStr ''analytics'') []
         \<lparr>req_method = ''POST'', req_path = ''/api/v1/nlp/summarize'', req_query = [],
          req_headers = [(''Content-Type'', ''application/json'')], req_body = ''{}''\<rparr>) = 404"
proof -
  let ?req = "\<lparr>req_method = ''POST'', req_path = ''/api/v1/nlp/summarize'', req_query = [],
               req_headers = [(''Content-Type'', ''application/json'')], req_body = ''{}''\<rparr>"
  have h: "req_path ?req \<notin> set routes" by (simp add: routes_def)
  from other_paths_not_found [OF h, of "JStr ''analytics''" "[]"]
  have "status_code (dispatch (JStr ''analytics'') [] ?req) \<in> {404, 501}" by blast
  moreover have "status_code (dispatch (JStr ''analytics'') [] ?req) \<noteq> 501"
    by (simp add: dispatch_def routes_def error_response_def)
  ultimately show ?thesis using h by simp
qed

lemma serve_nth:
  "i < length reqs \<Longrightarrow>
     fst (serve feature features st reqs) ! i = dispatch feature features (reqs ! i)"
proof (induction reqs arbitrary: i st)
  case Nil
  then show ?case by simp
next
  case (Cons req reqs)
  show ?case
  proof (cases i)
    case 0
    then show ?thesis by (simp add: handle_def split_beta)
  next
    case (Suc j)
    with Cons.prems have "j < length reqs" by simp
    from Cons.IH [OF this, of st] Suc show ?thesis by (simp add: handle_def split_beta)
  qed
qed

text \<open>
  Claim C6. Two \<open>GET\<close> requests for the same one of the three routes get the same status
  and payload, whatever their query parameters, headers and bodies, whatever the process
  holds when each arrives, and wherever each stands in a sequence of requests.
\<close>

theorem responses_independent:
  assumes "req_method r1 = ''GET''" "req_method r2 = ''GET''"
    and "req_path r1 = req_path r2" "req_path r1 \<in> set routes"
    and "i < length reqs1" "reqs1 ! i = r1" "j < length reqs2" "reqs2 ! j = r2"
  shows "fst (handle feature features st1 r1) = fst (handle feature features st2 r2)
         \<and> fst (serve feature features st1 reqs1) ! i
             = fst (serve feature features st2 reqs2) ! j
         \<and> snd (handle feature features st1 r1) = st1"
proof -
  have d: "dispatch feature features r1 = dispatch feature features r2"
    using assms(1-4) by (simp add: dispatch_def)
  have "fst (serve feature features st1 reqs1) ! i = dispatch feature features r1"
    using serve_nth [OF assms(5)] assms(6) by simp
  moreover have "fst (serve feature features st2 reqs2) ! j = dispatch feature features r2"
    using serve_nth [OF assms(7)] assms(8) by simp
  ultimately show ?thesis using d by (simp add: handle_def)
qed

theorem responses_independent_witness:
  "fst (serve (JStr ''analytics'') [] (0::nat)
          [\<lparr>req_method = ''POST'', req_path = ''/api/v1/nlp/summarize'', req_query = [],
            req_headers = [], req_body = ''{}''\<rparr>,
           \<lparr>req_method = ''GET'', req_path = ''/health'', req_query = [(''verbose'', ''1'')],
            req_headers = [(''Authorization'', ''Bearer x'')], req_body = []\<rparr>]) ! 1
   = fst (serve (JStr ''analytics'') [] (7::nat)
          [\<lparr>req_method = ''GET'', req_path = ''/health'', req_query = [], req_headers = [],
            req_body = []\<rparr>]) ! 0"
proof -
  let ?r1 = "\<lparr>req_method = ''GET'', req_path = ''/health'', req_query = [(''verbose'', ''1'')],
              req_headers = [(''Authorization'', ''Bearer x'')], req_body = []\<rparr>"
  let ?r2 = "\<lparr>req_method = ''GET'', req_path = ''/health'', req_query = [], req_headers = [],
              req_body = []\<rparr>"
  let ?p = "\<lparr>req_method = ''POST'', req_path = ''/api/v1/nlp/summarize'', req_query = [],
             req_headers = [], req_body = ''{}''\<rparr>"
  have "fst (serve (JStr ''analytics'') [] (0::nat) [?p, ?r1]) ! 1
        = fst (serve (JStr ''analytics'') [] (7::nat) [?r2]) ! 0"
    using responses_independent [of ?r1 ?r2 1 "[?p, ?r1]" 0 "[?r2]" "JStr ''analytics''" "[]"
        "0::nat" "7::nat"]
    by (simp add: routes_def)
  then show ?thesis .
qed

subsection \<open>\<open>train_legal_models\<close>: what every run does\<close>

lemma fails_rbindI1: "fails m \<Longrightarrow> fails (rbind m k)"
  unfolding fails_def rbind_def
proof
  fix w
  assume a: "\<forall>w. \<exists>e. fst (m w) = Inl e"
  then obtain e where "fst (m w) = Inl e" by blast
  then show "\<exists>e. fst (case m w of (Inl e, g') \<Rightarrow> (Inl e, g') | (Inr x, g') \<Rightarrow> k x g') = Inl e"
    by (cases "m w") auto
qed

lemma fails_rbindI2:
  assumes "\<And>x. fails (k x)"
  shows "fails (rbind m k)"
  unfolding fails_def
proof
  fix w
  obtain r w' where mw: "m w = (r, w')" by (cases "m w")
  show "\<exists>e. fst (rbind m k w) = Inl e"
  proof (cases r)
    case (Inl e)
    then show ?thesis by (simp add: rbind_def mw)
  next
    case (Inr x)
    from assms [of x] obtain e where "fst (k x w') = Inl e" unfolding fails_def by blast
    then show ?thesis by (simp add: rbind_def mw Inr)
  qed
qed

lemma fails_unbound:
  assumes "cls \<notin> set module_globals"
  shows "fails (instantiate lib cls args)"
  by (simp add: fails_def instantiate_def rbind_def load_global_def assms)

lemma RandomForestRegressor_unbound: "''RandomForestRegressor'' \<notin> set module_globals"
  by (simp add: module_globals_def)

lemma fails_RandomForestRegressor:
  "fails (rbind (instantiate lib ''RandomForestRegressor'' args) k)"
  by (rule fails_rbindI1, rule fails_unbound, rule RandomForestRegressor_unbound)

lemma train_legal_models_fails: "fails (train_legal_models lib df)"
  unfolding train_legal_models_def
  by (rule fails_RandomForestRegressor | rule fails_rbindI2)+

text \<open>The attributes of \<open>self\<close> that a step leaves alone.\<close>

lemma keeps_rbind:
  assumes m: "keeps f m" and k: "\<And>x. keeps f (k x)"
  shows "keeps f (rbind m k)"
  unfolding keeps_def
proof
  fix w
  obtain r w1 where mw: "m w = (r, w1)" by (cases "m w")
  from m [unfolded keeps_def, rule_format, of w] mw have a: "f (self w1) = f (self w)" by simp
  show "f (self (snd (rbind m k w))) = f (self w)"
  proof (cases r)
    case (Inl e)
    then show ?thesis using a by (simp add: rbind_def mw)
  next
    case (Inr x)
    from k [of x, unfolded keeps_def, rule_format, of w1] a show ?thesis
      by (simp add: rbind_def mw Inr)
  qed
qed

lemma keeps_cut:
  assumes m: "keeps f m" and f: "fails m"
  shows "keeps f (rbind m k)"
  unfolding keeps_def
proof
  fix w
  obtain r w1 where mw: "m w = (r, w1)" by (cases "m w")
  from f [unfolded fails_def, rule_format, of w] mw obtain e where "r = Inl e" by auto
  then have "snd (rbind m k w) = w1" by (simp add: rbind_def mw)
  with m [unfolded keeps_def, rule_format, of w] mw
  show "f (self (snd (rbind m k w))) = f (self w)" by simp
qed

lemma keeps_lift: "keeps f (lift r)"
  by (simp add: keeps_def lift_def split: sum.splits)

lemma keeps_ret: "keeps f (ret x)"
  by (simp add: keeps_def ret_def)

lemma keeps_load_global: "keeps f (load_global name)"
  by (simp add: keeps_def load_global_def)

lemma keeps_get_self: "keeps f get_self"
  by (simp add: keeps_def get_self_def)

lemma keeps_record_call: "keeps f (record_call ev)"
  by (simp add: keeps_def record_call_def)

lemma keeps_set_self: "(\<And>s. f (g s) = f s) \<Longrightarrow> keeps f (set_self g)"
  by (simp add: keeps_def set_self_def)

lemma keeps_instantiate: "keeps f (instantiate lib cls args)"
  unfolding instantiate_def
  by (rule keeps_rbind keeps_load_global keeps_record_call keeps_lift)+

lemma keeps_call_function: "keeps f (call_function lib name args)"
  unfolding call_function_def
  by (rule keeps_rbind keeps_load_global keeps_record_call keeps_lift)+

lemma keeps_call_method: "keeps f (call_method lib cls name obj args)"
  unfolding call_method_def
  by (rule keeps_rbind keeps_record_call keeps_lift)+

lemma keeps_get_attr: "keeps f (get_attr lib cls name obj)"
  unfolding get_attr_def by (rule keeps_lift)

lemmas keeps_steps =
  keeps_rbind [OF keeps_lift]
  keeps_rbind [OF keeps_load_global]
  keeps_rbind [OF keeps_get_self]
  keeps_rbind [OF keeps_instantiate]
  keeps_rbind [OF keeps_call_function]
  keeps_rbind [OF keeps_call_method]
  keeps_rbind [OF keeps_get_attr]

lemma keeps_step_set_self:
  assumes "\<And>s. f (g s) = f s" "\<And>x. keeps f (k x)"
  shows "keeps f (rbind (set_self g) k)"
  by (rule keeps_rbind [OF keeps_set_self]) (rule assms)+

lemma keeps_step_RandomForestRegressor:
  "keeps f (rbind (instantiate lib ''RandomForestRegressor'' args) k)"
  by (rule keeps_cut [OF keeps_instantiate fails_unbound [OF RandomForestRegressor_unbound]])

lemma keeps_engineer_legal_features: "keeps f (engineer_legal_features df)"
  unfolding engineer_legal_features_def
  by (rule keeps_steps keeps_ret)+

lemma keeps_encode_column:
  assumes "apart_from_encoders f"
  shows "keeps f (encode_column lib col df)"
proof -
  have enc: "f (s\<lparr>encoders := v\<rparr>) = f s" for s v
    using assms by (simp add: apart_from_encoders_def)
  have "keeps f (case map_of (encoders s) col of
                 None \<Rightarrow>
                   rbind (instantiate lib ''LabelEncoder'' []) (\<lambda>encoder.
                   rbind (set_self (\<lambda>s. s\<lparr>encoders := AList.update col encoder (encoders s)\<rparr>)) (\<lambda>u.
                   rbind (lift (df_get df col)) (\<lambda>column.
                   rbind (call_method lib ''LabelEncoder'' ''fit_transform'' encoder [PySeries column])
                     (\<lambda>r.
                   rbind (set_self (\<lambda>s. s\<lparr>encoders := AList.update col (fst r) (encoders s)\<rparr>)) (\<lambda>u.
                   lift (assign (col @ ''_encoded'') (as_series (snd r)) df))))))
               | Some encoder \<Rightarrow>
                   rbind (lift (df_get df col)) (\<lambda>column.
                   rbind (call_method lib ''LabelEncoder'' ''transform'' encoder [PySeries column])
                     (\<lambda>r.
                   rbind (set_self (\<lambda>s. s\<lparr>encoders := AList.update col (fst r) (encoders s)\<rparr>)) (\<lambda>u.
                   lift (assign (col @ ''_encoded'') (as_series (snd r)) df)))))" for s
  proof (cases "map_of (encoders s) col")
    case None
    show ?thesis unfolding None option.case
      by (rule keeps_steps keeps_lift keeps_step_set_self enc)+
  next
    case (Some encoder)
    show ?thesis unfolding Some option.case
      by (rule keeps_steps keeps_lift keeps_step_set_self enc)+
  qed
  then show ?thesis
    unfolding encode_column_def by (rule keeps_rbind [OF keeps_get_self])
qed

lemma keeps_encode_columns:
  assumes "apart_from_encoders f"
  shows "keeps f (encode_columns lib cols df)"
proof (induction cols arbitrary: df)
  case Nil
  show ?case by (simp add: keeps_ret)
next
  case (Cons col cols)
  show ?case
    unfolding encode_columns.simps
    by (rule keeps_rbind [OF keeps_encode_column [OF assms]]) (rule Cons.IH)
qed

lemma keeps_prepare_data_for_modeling:
  assumes "apart_from_encoders f"
  shows "keeps f (prepare_data_for_modeling lib df)"
  unfolding prepare_data_for_modeling_def
  by (rule keeps_rbind [OF keeps_engineer_legal_features]
        keeps_rbind [OF keeps_encode_columns [OF assms]] keeps_ret)+

lemma keeps_train_legal_models: "keeps untrained_part (train_legal_models lib df)"
proof -
  have enc: "apart_from_encoders untrained_part"
    by (simp add: apart_from_encoders_def untrained_part_def)
  have sc: "untrained_part (s\<lparr>scalers := v\<rparr>) = untrained_part s" for s v
    by (simp add: untrained_part_def)
  have m1: "untrained_part (s\<lparr>models := AList.update ''outcome_predictor'' v (models s)\<rparr>)
              = untrained_part s" for s v
    by (simp add: untrained_part_def update_conv')
  have m2: "untrained_part (s\<lparr>models := AList.update ''hours_predictor'' v (models s)\<rparr>)
              = untrained_part s" for s v
    by (simp add: untrained_part_def update_conv')
  show ?thesis
    unfolding train_legal_models_def
    apply (rule keeps_rbind [OF keeps_prepare_data_for_modeling [OF enc]])
    apply (rule keeps_step_RandomForestRegressor keeps_steps keeps_step_set_self sc m1 m2)+
    done
qed



















































subsection \<open>\<open>train_legal_models\<close>: two runs\<close>

lemma generate_one_case: "fst (generate_legal_data counter_random 1 0) = Inr one_case_frame"
  by code_simp

text \<open>
  A run is followed statement by statement: each rule below takes one statement of the
  body, asks for its value in the current state and goes on with the rest of the body
  in the state that the statement leaves.
\<close>

lemma rbind_assoc: "rbind (rbind m f) k = rbind m (\<lambda>x. rbind (f x) k)"
  by (rule ext) (simp add: rbind_def split: prod.splits sum.splits)

lemma rbind_ret: "rbind (ret x) k = k x"
  by (rule ext) (simp add: rbind_def ret_def)

lemma step_lift:
  "r = Inr x \<Longrightarrow> k x w = res \<Longrightarrow> rbind (lift r) k w = res"
  by (simp add: rbind_def lift_def)

lemma step_load_global:
  "name \<in> set module_globals \<Longrightarrow> k () w = res \<Longrightarrow> rbind (load_global name) k w = res"
  by (simp add: rbind_def load_global_def)

lemma step_get_self:
  "k s \<lparr>self = s, calls = c\<rparr> = res \<Longrightarrow> rbind get_self k \<lparr>self = s, calls = c\<rparr> = res"
  by (simp add: rbind_def get_self_def)

lemma step_set_self:
  "f s = s' \<Longrightarrow> k () \<lparr>self = s', calls = c\<rparr> = res
     \<Longrightarrow> rbind (set_self f) k \<lparr>self = s, calls = c\<rparr> = res"
  by (auto simp: rbind_def set_self_def)

lemma step_instantiate:
  "cls \<in> set module_globals \<Longrightarrow> lib cls args = Inr v
     \<Longrightarrow> k v \<lparr>self = s, calls = c @ [Construct cls]\<rparr> = res
     \<Longrightarrow> rbind (instantiate lib cls args) k \<lparr>self = s, calls = c\<rparr> = res"
  by (auto simp: rbind_def instantiate_def load_global_def record_call_def lift_def)

lemma step_call_function:
  "name \<in> set module_globals \<Longrightarrow> lib name args = Inr v
     \<Longrightarrow> k v \<lparr>self = s, calls = c @ [Function name]\<rparr> = res
     \<Longrightarrow> rbind (call_function lib name args) k \<lparr>self = s, calls = c\<rparr> = res"
  by (auto simp: rbind_def call_function_def load_global_def record_call_def lift_def)

lemma step_call_method:
  "(case lib (cls @ ''.'' @ name) (obj # args) of
      Inl e \<Rightarrow> Inl e
    | Inr (PyTuple [obj', result]) \<Rightarrow> Inr (obj', result)
    | Inr v \<Rightarrow> Inr (obj, v)) = Inr r
     \<Longrightarrow> k r \<lparr>self = s, calls = c @ [Method cls name]\<rparr> = res
     \<Longrightarrow> rbind (call_method lib cls name obj args) k \<lparr>self = s, calls = c\<rparr> = res"
  by (auto simp: rbind_def call_method_def record_call_def lift_def)

lemma step_new_encoder:
  "map_of (encoders s) col = None \<Longrightarrow> rbind a k w = res
     \<Longrightarrow> rbind (case map_of (encoders s) col of None \<Rightarrow> a | Some encoder \<Rightarrow> b encoder) k w = res"
  by simp

lemma step_unbound:
  "cls \<notin> set module_globals \<Longrightarrow> (Inl (NameError cls), w) = res
     \<Longrightarrow> rbind (instantiate lib cls args) k w = res"
  by (auto simp: rbind_def instantiate_def load_global_def)


lemmas column_defs =
  assign_def column_op_def column_gt_scalar_def column_gt_quantile_def df_get_def df_set_def
  df_select_def series_op_def series_scalar_def series_gt_def series_gt_scalar_def
  series_abs_def series_mean_def astype_int_def quantile_def binop_def greater_def
  cell_num_def nrows_def as_series_def unpack_def relative_accuracy_def feature_cols_def
  categorical_cols_def List.map_filter_def Let_def

lemmas library_defs = obliging_library_def failing_fit_library_def

text \<open>
  On a library that obliges, the call on a new platform gets as far as line 198: the
  classifier and the hours model are fitted and stored, and the name
  \<open>RandomForestRegressor\<close> raises \<open>NameError\<close>.
\<close>

lemma obliging_run:
  "train_legal_models obliging_library one_case_frame new_platform
     = (Inl (NameError ''RandomForestRegressor''),
        \<lparr>self = \<lparr>models = [(''outcome_predictor'', PyObj ''RandomForestClassifier'' 0),
                            (''hours_predictor'', PyObj ''GradientBoostingRegressor'' 0)],
                  scalers = [(''features'', PyObj ''StandardScaler'' 0)],
                  encoders =
                    [(''practice_area'', PyObj ''LabelEncoder'' 0),
                     (''document_type'', PyObj ''LabelEncoder'' 0),
                     (''complexity'', PyObj ''LabelEncoder'' 0),
                     (''client_type'', PyObj ''LabelEncoder'' 0)],
                  vectorizers = [], is_trained = False\<rparr>,
         calls =
             [Construct ''LabelEncoder'', Method ''LabelEncoder'' ''fit_transform'',
              Construct ''LabelEncoder'', Method ''LabelEncoder'' ''fit_transform'',
              Construct ''LabelEncoder'', Method ''LabelEncoder'' ''fit_transform'',
              Construct ''LabelEncoder'', Method ''LabelEncoder'' ''fit_transform'',
              Function ''train_test_split'',
              Construct ''StandardScaler'', Method ''StandardScaler'' ''fit_transform'',
              Method ''StandardScaler'' ''transform'',
              Construct ''LabelEncoder'', Method ''LabelEncoder'' ''fit_transform'',
              Method ''LabelEncoder'' ''transform'',
              Construct ''RandomForestClassifier'', Method ''RandomForestClassifier'' ''fit'',
              Method ''RandomForestClassifier'' ''predict'', Function ''accuracy_score'',
              Construct ''GradientBoostingRegressor'',
              Method ''GradientBoostingRegressor'' ''fit'',
              Method ''GradientBoostingRegressor'' ''predict'',
              Function ''mean_squared_error'']\<rparr>)"
  unfolding train_legal_models_def prepare_data_for_modeling_def engineer_legal_features_def
    categorical_cols_def encode_columns.simps encode_column_def rbind_assoc rbind_ret
    one_case_frame_def new_platform_def
  apply (rule step_lift, simp add: column_defs)
  apply (rule step_lift, simp add: column_defs)
  apply (rule step_lift, simp add: column_defs)
  apply (rule step_lift, simp add: column_defs)
  apply (rule step_load_global, simp add: module_globals_def)
  apply (rule step_lift, simp add: column_defs)
  apply (rule step_lift, simp add: column_defs)
  apply (rule step_lift, simp add: column_defs)
  apply (rule step_lift, simp add: column_defs)
  apply (rule step_lift, simp add: column_defs)
  apply (rule step_lift, simp add: column_defs)
  apply (rule step_lift, simp add: column_defs)
  apply (rule step_lift, simp add: column_defs)
  apply (rule step_get_self)
  apply (rule step_new_encoder, simp add: init_def)
  apply (simp only: rbind_assoc)
  apply (rule step_instantiate, simp add: module_globals_def, simp add: library_defs)
  apply (rule step_set_self, simp add: init_def)
  apply (rule step_lift, simp add: column_defs)
  apply (rule step_call_method, simp add: library_defs column_defs)
  apply (rule step_set_self, simp add: init_def)
  apply (rule step_lift, simp add: column_defs)
  apply (rule step_get_self)
  apply (rule step_new_encoder, simp add: init_def)
  apply (simp only: rbind_assoc)
  apply (rule step_instantiate, simp add: module_globals_def, simp add: library_defs)
  apply (rule step_set_self, simp add: init_def)
  apply (rule step_lift, simp add: column_defs)
  apply (rule step_call_method, simp add: library_defs column_defs)
  apply (rule step_set_self, simp add: init_def)
  apply (rule step_lift, simp add: column_defs)
  apply (rule step_get_self)
  apply (rule step_new_encoder, simp add: init_def)
  apply (simp only: rbind_assoc)
  apply (rule step_instantiate, simp add: module_globals_def, simp add: library_defs)
  apply (rule step_set_self, simp add: init_def)
  apply (rule step_lift, simp add: column_defs)
  apply (rule step_call_method, simp add: library_defs column_defs)
  apply (rule step_set_self, simp add: init_def)
  apply (rule step_lift, simp add: column_defs)
  apply (rule step_get_self)
  apply (rule step_new_encoder, simp add: init_def)
  apply (simp only: rbind_assoc)
  apply (rule step_instantiate, simp add: module_globals_def, simp add: library_defs)
  apply (rule step_set_self, simp add: init_def)
  apply (rule step_lift, simp add: column_defs)
  apply (rule step_call_method, simp add: library_defs column_defs)
  apply (rule step_set_self, simp add: init_def)
  apply (rule step_lift, simp add: column_defs)
  apply (rule step_lift, simp add: column_defs)
  apply (rule step_lift, simp add: column_defs)
  apply (rule step_lift, simp add: column_defs)
  apply (rule step_lift, simp add: column_defs)
  apply (rule step_lift, simp add: column_defs)
  apply (rule step_call_function, simp add: module_globals_def, simp add: library_defs column_defs)
  apply (rule step_lift, simp add: column_defs)
  apply (rule step_instantiate, simp add: module_globals_def, simp add: library_defs)
  apply (rule step_set_self, simp add: init_def)
  apply (rule step_call_method, simp add: library_defs column_defs)
  apply (rule step_set_self, simp add: init_def)
  apply (rule step_call_method, simp add: library_defs column_defs)
  apply (rule step_set_self, simp add: init_def)
  apply (rule step_instantiate, simp add: module_globals_def, simp add: library_defs)
  apply (rule step_call_method, simp add: library_defs column_defs)
  apply (rule step_call_method, simp add: library_defs column_defs)
  apply (rule step_instantiate, simp add: module_globals_def, simp add: library_defs)
  apply (rule step_call_method, simp add: library_defs column_defs)
  apply (rule step_set_self, simp add: init_def)
  apply (rule step_call_method, simp add: library_defs column_defs)
  apply (rule step_call_function, simp add: module_globals_def, simp add: library_defs column_defs)
  apply (rule step_instantiate, simp add: module_globals_def, simp add: library_defs)
  apply (rule step_call_method, simp add: library_defs column_defs)
  apply (rule step_set_self, simp add: init_def)
  apply (rule step_call_method, simp add: library_defs column_defs)
  apply (rule step_call_function, simp add: module_globals_def, simp add: library_defs column_defs)
  apply (rule step_load_global, simp add: module_globals_def)
  apply (rule step_lift, simp add: column_defs)
  apply (rule step_unbound, simp add: module_globals_def, simp)
  done


text \<open>
  Claim C1 fails on every call. Line 7 imports \<open>RandomForestClassifier\<close> and
  \<open>GradientBoostingRegressor\<close> only, and line 198 reads the name
  \<open>RandomForestRegressor\<close>: whatever the library does, whatever the frame and the state of
  the platform, \<open>train_legal_models\<close> raises and returns no results, \<open>is_trained\<close> is
  what it was, and no \<open>cost_predictor\<close> is stored. (\<open>obliging_run\<close> is the call on the
  frame of \<open>generate_legal_data(1)\<close>, where the exception is the \<open>NameError\<close>.)
\<close>

theorem train_legal_models_raises:
  "\<exists>e. fst (train_legal_models lib df w) = Inl e
       \<and> is_trained (self (snd (train_legal_models lib df w))) = is_trained (self w)
       \<and> map_of (models (self (snd (train_legal_models lib df w)))) ''cost_predictor''
           = map_of (models (self w)) ''cost_predictor''"
proof -
  from train_legal_models_fails [of lib df] obtain e where
    "fst (train_legal_models lib df w) = Inl e"
    unfolding fails_def by blast
  moreover from keeps_train_legal_models [of lib df]
  have "untrained_part (self (snd (train_legal_models lib df w))) = untrained_part (self w)"
    unfolding keeps_def by blast
  ultimately show ?thesis by (simp add: untrained_part_def)
qed



end
